theory Spec2Isabelle
  imports Main "HOL-Library.Word"
begin

section \<open>Shared value types\<close>

text \<open>
  The Engine of \<^verbatim>\<open>src/client/engine/engine/engine.cpp\<close> is embedded as a state
  transformer on a record of its member variables. Every call it makes on one of its
  collaborators (ConnectionManager, FirewallController, Helper, ConnectStateController,
  ApiResourcesManager, ...) and every signal it emits is appended, in program order, to
  the field \<open>calls\<close>. What a collaborator answers to a query is read from the
  environment, as a function of the calls made so far, so that no behaviour of a
  collaborator is assumed. Member variables \<^verbatim>\<open>name_\<close> of the C++ class are the
  record fields \<open>name\<close>. Logging (\<^verbatim>\<open>qCDebug\<close>), debug assertions
  (\<^verbatim>\<open>WS_ASSERT\<close>) and the mutex guard are left out.
\<close>

text \<open>Modelled from the spec: the enumerations CONNECT_STATE, DISCONNECT_REASON and
  CONNECT_ERROR are declared in a header that is not among the sources; the constants are
  those the Engine names, \<open>DRIVER_ERROR\<close> stands for the protocol-specific driver errors.\<close>

datatype CONNECT_STATE =
    CONNECT_STATE_DISCONNECTED
  | CONNECT_STATE_CONNECTED
  | CONNECT_STATE_CONNECTING
  | CONNECT_STATE_DISCONNECTING

datatype DISCONNECT_REASON =
    DISCONNECTED_BY_USER
  | DISCONNECTED_ITSELF
  | DISCONNECTED_WITH_ERROR

datatype CONNECT_ERROR =
    NO_CONNECT_ERROR
  | AUTH_ERROR
  | PRIV_KEY_PASSWORD_ERROR
  | LOCATION_NOT_EXIST
  | LOCATION_NO_ACTIVE_NODES
  | CONNECTION_BLOCKED
  | NO_INSTALLED_TUN_TAP
  | ALL_TAP_IN_USE
  | WINTUN_FATAL_ERROR
  | DRIVER_ERROR nat

text \<open>The platform the Engine is compiled for (the \<^verbatim>\<open>#ifdef Q_OS_...\<close> branches).\<close>

datatype platform = Q_OS_WIN | Q_OS_MAC | Q_OS_LINUX

text \<open>Modelled from the spec: the firewall settings enumerations (mode and timing) are
  declared outside the sources; the Engine names \<open>FIREWALL_MODE_AUTOMATIC\<close>,
  \<open>FIREWALL_WHEN_BEFORE_CONNECTION\<close> and \<open>FIREWALL_WHEN_AFTER_CONNECTION\<close>.\<close>

datatype FIREWALL_MODE = FIREWALL_MODE_MANUAL | FIREWALL_MODE_AUTOMATIC | FIREWALL_MODE_ALWAYS_ON

datatype FIREWALL_WHEN = FIREWALL_WHEN_BEFORE_CONNECTION | FIREWALL_WHEN_AFTER_CONNECTION

record FirewallSettings =
  fw_mode :: FIREWALL_MODE
  fw_when :: FIREWALL_WHEN

text \<open>Modelled from the spec: \<^verbatim>\<open>types::Protocol\<close> with its predicates; a default
  constructed protocol is \<open>UNINITIALIZED\<close>.\<close>

datatype Protocol = UNINITIALIZED | IKEV2 | OPENVPN_UDP | OPENVPN_TCP | STUNNEL | WSTUNNEL | WIREGUARD

definition isIkev2Protocol :: "Protocol \<Rightarrow> bool" where
  "isIkev2Protocol p = (p = IKEV2)"

definition isWireGuardProtocol :: "Protocol \<Rightarrow> bool" where
  "isWireGuardProtocol p = (p = WIREGUARD)"

record ConnectionSettings =
  cs_protocol :: Protocol
  cs_port :: nat
  cs_isAutomatic :: bool

text \<open>\<^verbatim>\<open>types::ConnectionSettings(types::Protocol(types::Protocol::TYPE::UNINITIALIZED), 0, true)\<close>\<close>

definition noOverride :: ConnectionSettings where
  "noOverride = \<lparr>cs_protocol = UNINITIALIZED, cs_port = 0, cs_isAutomatic = True\<rparr>"

text \<open>Modelled from the spec: a LocationID is an ordinary server node, the best-location
  alias, a static-IP location or a custom-config location; \<^verbatim>\<open>LocationID()\<close> is invalid.\<close>

datatype location_type =
    INVALID_LOCATION | API_LOCATION | BEST_LOCATION | CUSTOM_CONFIGS_LOCATION | STATIC_IPS_LOCATION

record LocationID =
  loc_type :: location_type
  loc_id :: nat
  loc_city :: string

definition isCustomConfigsLocation :: "LocationID \<Rightarrow> bool" where
  "isCustomConfigsLocation l = (loc_type l = CUSTOM_CONFIGS_LOCATION)"

definition isStaticIpsLocation :: "LocationID \<Rightarrow> bool" where
  "isStaticIpsLocation l = (loc_type l = STATIC_IPS_LOCATION)"

definition invalidLocation :: LocationID where
  "invalidLocation = \<lparr>loc_type = INVALID_LOCATION, loc_id = 0, loc_city = []\<rparr>"

text \<open>What \<^verbatim>\<open>locationsModel_->getMutableLocationInfoById\<close> returns when the pointer is
  not null.\<close>

record BaseLocationInfo =
  bli_locationId :: LocationID
  bli_name :: string
  bli_isExistSelectedNode :: bool

text \<open>A C++ \<^verbatim>\<open>int\<close>: 32 bits, read as two's complement (\<open>sint\<close>, \<open><s\<close>).\<close>

type_synonym c_int = "32 word"

record PacketSize =
  ps_isAutomatic :: bool
  ps_mtu :: c_int

record NetworkInterface =
  networkOrSsid :: string
  interfaceName :: string

record AdapterGatewayInfo =
  adapterName :: string
  ifIndex :: nat
  dnsServers :: "string list"
  gateway :: string

text \<open>\<^verbatim>\<open>AdapterGatewayInfo()\<close>\<close>

definition emptyAdapterInfo :: AdapterGatewayInfo where
  "emptyAdapterInfo = \<lparr>adapterName = [], ifIndex = 0, dnsServers = [], gateway = []\<rparr>"

record ProxySettings =
  curlAddress :: string
  proxyUsername :: string
  proxyPassword :: string

type_synonym PortMap = "nat list"
type_synonym ServerCredentials = "string list"

datatype UPDATE_CHANNEL =
    UPDATE_CHANNEL_RELEASE | UPDATE_CHANNEL_BETA | UPDATE_CHANNEL_GUINEA_PIG | UPDATE_CHANNEL_INTERNAL

datatype CONNECTED_DNS_TYPE = CONNECTED_DNS_TYPE_AUTO | CONNECTED_DNS_TYPE_CUSTOM | CONNECTED_DNS_TYPE_FORCED

text \<open>The part of \<^verbatim>\<open>types::EngineSettings\<close> the modelled functions read.\<close>

record EngineSettings =
  firewallSettings :: FirewallSettings
  isAllowLanTraffic :: bool
  isTerminateSockets :: bool
  connectionSettingsForNetworkInterface :: "string \<Rightarrow> ConnectionSettings"
  networkLastKnownGoodProtocol :: "string \<Rightarrow> Protocol"
  customOvpnConfigsPath :: string
  updateChannel :: UPDATE_CHANNEL

text \<open>Modelled from the spec: the FirewallExceptions set (connecting IP, DNS-server IPs,
  custom remote IP, location-ping IPs, custom-config-ping IPs, proxy IP, host IPs); its
  class is not among the sources. A setter reports through \<open>bChanged\<close> whether the
  stored value changed.\<close>

record FirewallExceptions =
  fe_connectingIp :: string
  fe_dnsServers :: "string list"
  fe_customRemoteIp :: string
  fe_locationsPingIps :: "string list"
  fe_customConfigPingIps :: "string list"
  fe_proxyIp :: string
  fe_hostIps :: "string list"

definition setConnectingIp :: "string \<Rightarrow> FirewallExceptions \<Rightarrow> FirewallExceptions \<times> bool" where
  "setConnectingIp ip fe = (fe\<lparr>fe_connectingIp := ip\<rparr>, fe_connectingIp fe \<noteq> ip)"

definition setDNSServers :: "string list \<Rightarrow> FirewallExceptions \<Rightarrow> FirewallExceptions \<times> bool" where
  "setDNSServers ips fe = (fe\<lparr>fe_dnsServers := ips\<rparr>, fe_dnsServers fe \<noteq> ips)"

definition setCustomRemoteIp :: "string \<Rightarrow> FirewallExceptions \<Rightarrow> FirewallExceptions \<times> bool" where
  "setCustomRemoteIp ip fe = (fe\<lparr>fe_customRemoteIp := ip\<rparr>, fe_customRemoteIp fe \<noteq> ip)"

section \<open>Calls on collaborators and emitted signals\<close>

datatype cm_call =
    CM_setProperty_senderSource "string option"
  | CM_clickConnect string ServerCredentials BaseLocationInfo ConnectionSettings PortMap ProxySettings bool string
  | CM_clickDisconnect
  | CM_setLastKnownGoodProtocol Protocol
  | CM_continueWithUsernameAndPassword string string bool
  | CM_continueWithPassword string bool
  | CM_continueWithPrivKeyPassword string bool
  | CM_updateConnectionSettings ConnectionSettings PortMap ProxySettings
  | CM_startTunnelTests

datatype csc_call =
    setConnectingState LocationID
  | setConnectedState LocationID
  | setDisconnectingState
  | setDisconnectedState DISCONNECT_REASON CONNECT_ERROR

datatype fw_call =
    FW_firewallOn string "string list" bool bool
  | FW_firewallOff
  | FW_whitelistPorts "nat list"
  | FW_deleteWhitelistPorts
  | FW_setInterfaceToSkip_posix string
  | FW_enableFirewallOnBoot bool

datatype helper_call =
    sendConnectStatus bool bool bool AdapterGatewayInfo AdapterGatewayInfo string Protocol
  | changeMtu string c_int
  | setCustomDnsWhileConnected nat "string list"
  | setIPv6EnabledInFirewall bool
  | closeAllTcpConnections bool
  | enableDohSettings_helper
  | AdapterMetricsController_updateMetrics string

datatype arm_call =
    ARM_new
  | ARM_reset
  | ARM_connect_signal string
  | ARM_disconnect_serverCredentialsFetched
  | ARM_fetchSession
  | ARM_fetchServerCredentials
  | ARM_fetchAllWithAuthHash
  | ARM_loadFromSettings
  | ARM_login string string string
  | ARM_removeFromSettings

datatype cred_call =
    setAuthCredentials string string string
  | setPrivKeyPassword string string
  | removeCredentials string
  | removePrivKeyPassword string

datatype misc_call =
    MyIp_getIP nat
  | VpnShare_onConnectedToVPNEvent string
  | VpnShare_onDisconnectedFromVPNEvent
  | HttpNetworkManager_setProxySettings "(string \<times> string \<times> string) option"
  | DnsServersConfiguration_setConnectedState "string list"
  | DnsServersConfiguration_setDisconnectedState
  | Ipv6Controller_mac_disableIpv6
  | Ipv6Controller_mac_restoreIpv6
  | DnsInfo_win_outputDebugDnsInfo
  | DnsResolver_lookupBlocked string
  | ExtraConfig_setDetectedIp string
  | Logger_startConnectionMode
  | LocationsModel_clear
  | LocationsModel_setApiLocations "string list" "string list"
  | LocationsModel_setCustomConfigLocations "string list"
  | SignOutHelper_reset
  | SignOutHelper_new_signOut string
  | GetWireGuardConfig_removeWireGuardSettings
  | CheckUpdateManager_checkUpdate UPDATE_CHANNEL
  | EmergencyController_blockingDisconnect
  | EmergencyController_clickConnect ProxySettings
  | EmergencyController_clickDisconnect

text \<open>\<^verbatim>\<open>QMetaObject::invokeMethod(this, "...Impl", ...)\<close>: the method is posted to the
  Engine's own queue, not run by the caller.\<close>

datatype invoke =
    Invoke_connectClickImpl LocationID ConnectionSettings
  | Invoke_disconnectClickImpl
  | Invoke_emergencyConnectClickImpl
  | Invoke_emergencyDisconnectClickImpl

datatype signal =
    firewallStateChanged bool
  | requestUsername
  | requestPrivKeyPassword
  | helperSplitTunnelingStartFailed
  | networkChanged NetworkInterface
  | emergencyDisconnected
  | signOutFinished
  | sessionStatusUpdated
  | loginFinished bool string PortMap

datatype call =
    CM cm_call
  | CSC csc_call
  | ECSC csc_call
  | FW fw_call
  | Helper helper_call
  | ARM arm_call
  | Cred cred_call
  | Misc misc_call
  | Queued invoke
  | Emit signal

section \<open>The environment: what the collaborators answer\<close>

text \<open>Each query of a collaborator's state takes the calls made so far. The pure helpers
  (\<^verbatim>\<open>IpValidation\<close>, the IP lists of FirewallExceptions), the constants
  \<^verbatim>\<open>MTU_OFFSET_WG\<close> and \<^verbatim>\<open>MTU_OFFSET_IKEV2\<close>, which are defined outside the sources,
  and the MTU offsets of ExtraConfig (a value and the flag that tells whether the advanced
  parameter is set) are parameters as well.\<close>

record environment =
  os :: platform
  MTU_OFFSET_WG :: c_int
  MTU_OFFSET_IKEV2 :: c_int
  getMtuOffsetWireguard :: "c_int \<times> bool"
  getMtuOffsetIkev2 :: "c_int \<times> bool"
  getRemoteIpFromExtraConfig :: "call list \<Rightarrow> string"
  isIp :: "string \<Rightarrow> bool"
  isDomain :: "string \<Rightarrow> bool"
  lookupBlocked :: "call list \<Rightarrow> string \<Rightarrow> bool \<times> string list"
  getIPAddressesForFirewall :: "FirewallExceptions \<Rightarrow> string list"
  getIPAddressesForFirewallForConnectedState :: "FirewallExceptions \<Rightarrow> string list"
  cm_isDisconnected :: "call list \<Rightarrow> bool"
  cm_isStaticIpsLocation :: "call list \<Rightarrow> bool"
  cm_getStatisIps :: "call list \<Rightarrow> nat list"
  cm_isAllowFirewallAfterConnection :: "call list \<Rightarrow> bool"
  cm_getLastConnectedIp :: "call list \<Rightarrow> string"
  cm_getVpnAdapterInfo :: "call list \<Rightarrow> AdapterGatewayInfo"
  cm_getDefaultAdapterInfo :: "call list \<Rightarrow> AdapterGatewayInfo"
  cm_currentProtocol :: "call list \<Rightarrow> Protocol"
  cm_connectedDnsInfo_type :: "call list \<Rightarrow> CONNECTED_DNS_TYPE"
  cm_isCustomOvpnConfigCurrentConnection :: "call list \<Rightarrow> bool"
  cm_getCustomOvpnConfigFileName :: "call list \<Rightarrow> string"
  csc_currentState :: "call list \<Rightarrow> CONNECT_STATE"
  fw_firewallActualState :: "call list \<Rightarrow> bool"
  helper_sendConnectStatus_result :: "call list \<Rightarrow> bool"
  detectAndCreateDefaultAdapterInfo :: "call list \<Rightarrow> AdapterGatewayInfo"
  isDohSupported :: "call list \<Rightarrow> bool"
  lm_getMutableLocationInfoById :: "call list \<Rightarrow> LocationID \<Rightarrow> BaseLocationInfo option"
  nd_getCurrentNetworkInterface :: "call list \<Rightarrow> NetworkInterface"
  getCurrentProxySettings :: "call list \<Rightarrow> ProxySettings"
  arm_isLoggedIn :: "call list \<Rightarrow> bool"
  arm_loadFromSettings_result :: "call list \<Rightarrow> bool"
  arm_authHash :: "call list \<Rightarrow> string"
  arm_portMap :: "call list \<Rightarrow> PortMap"
  arm_ovpnConfig :: "call list \<Rightarrow> string"
  arm_serverCredentials :: "call list \<Rightarrow> ServerCredentials"
  arm_locations :: "call list \<Rightarrow> string list"
  arm_staticIps :: "call list \<Rightarrow> string list"
  customConfigs_getConfigs :: "call list \<Rightarrow> string list"
  ec_isDisconnected :: "call list \<Rightarrow> bool"

section \<open>The Engine's state\<close>

text \<open>\<open>senderSource\<close> is the dynamic Qt property of that name on the
  ConnectionManager object (\<open>None\<close>: an invalid QVariant). \<open>apiResourcesManager\<close>
  tells whether the pointer is set, \<open>serverCredentialsFetched_slots\<close> counts the
  connections of its signal \<^verbatim>\<open>serverCredentialsFetched\<close> to the Engine's slot.\<close>

record engine =
  env :: environment
  calls :: "call list"
  bInitialized :: bool
  helper :: bool
  locationId :: LocationID
  locationName :: string
  connectionSettingsOverride :: ConnectionSettings
  isBlockConnect :: bool
  isNeedReconnectAfterRequestAuth :: bool
  isIgnoreNoApiConnectivity :: bool
  overrideUpdateChannelWithInternal :: bool
  engineSettings :: EngineSettings
  packetSize :: PacketSize
  firewallExceptions :: FirewallExceptions
  lastConnectingProtocol :: Protocol
  prevNetworkInterface :: NetworkInterface
  bPrevNetworkInterfaceInitialized :: bool
  senderSource :: "string option"
  apiResourcesManager :: bool
  serverCredentialsFetched_slots :: nat

definition do_call :: "call \<Rightarrow> engine \<Rightarrow> engine" where
  "do_call c s = s\<lparr>calls := calls s @ [c]\<rparr>"

definition ask :: "(environment \<Rightarrow> call list \<Rightarrow> 'a) \<Rightarrow> engine \<Rightarrow> 'a" where
  "ask q s = q (env s) (calls s)"

text \<open>The calls made between two states of one run.\<close>

definition new_calls :: "engine \<Rightarrow> engine \<Rightarrow> call list" where
  "new_calls s s' = drop (length (calls s)) (calls s')"


section \<open>The Engine's methods\<close>

subsection \<open>Commands called by the UI (lines 278-361)\<close>

definition connectClick :: "LocationID \<Rightarrow> ConnectionSettings \<Rightarrow> engine \<Rightarrow> engine" where
  "connectClick loc cs s =
    (if bInitialized s then
       let s = s\<lparr>locationId := loc\<rparr>;
           s = do_call (CSC (setConnectingState (locationId s))) s
       in do_call (Queued (Invoke_connectClickImpl loc cs)) s
     else s)"

definition disconnectClick :: "engine \<Rightarrow> engine" where
  "disconnectClick s =
    (if bInitialized s then
       if ask csc_currentState s = CONNECT_STATE_CONNECTED
          \<or> ask csc_currentState s = CONNECT_STATE_CONNECTING then
         let s = do_call (CSC setDisconnectingState) s
         in do_call (Queued Invoke_disconnectClickImpl) s
       else s
     else s)"

definition emergencyConnectClick :: "engine \<Rightarrow> engine" where
  "emergencyConnectClick s =
    (if bInitialized s then
       let s = do_call (ECSC (setConnectingState invalidLocation)) s
       in do_call (Queued Invoke_emergencyConnectClickImpl) s
     else
       let s = do_call (ECSC (setDisconnectedState DISCONNECTED_ITSELF NO_CONNECT_ERROR)) s
       in do_call (Emit emergencyDisconnected) s)"

definition emergencyDisconnectClick :: "engine \<Rightarrow> engine" where
  "emergencyDisconnectClick s =
    (if bInitialized s then
       let s = do_call (ECSC setDisconnectingState) s
       in do_call (Queued Invoke_emergencyDisconnectClickImpl) s
     else
       let s = do_call (ECSC (setDisconnectedState DISCONNECTED_ITSELF NO_CONNECT_ERROR)) s
       in do_call (Emit emergencyDisconnected) s)"

definition emergencyConnectClickImpl :: "engine \<Rightarrow> engine" where
  "emergencyConnectClickImpl s =
     do_call (Misc (EmergencyController_clickConnect (ask getCurrentProxySettings s))) s"

definition emergencyDisconnectClickImpl :: "engine \<Rightarrow> engine" where
  "emergencyDisconnectClickImpl s = do_call (Misc EmergencyController_clickDisconnect) s"

subsection \<open>Credential continuation (lines 1079-1116)\<close>

definition continueWithUsernameAndPasswordImpl :: "string \<Rightarrow> string \<Rightarrow> bool \<Rightarrow> engine \<Rightarrow> engine" where
  "continueWithUsernameAndPasswordImpl username password bSave s =
    (if username = [] \<and> password = [] then
       do_call (CM CM_clickDisconnect) s
     else
       let s = (if bSave then
                  do_call (Cred (setAuthCredentials (ask cm_getCustomOvpnConfigFileName s) username password)) s
                else s)
       in do_call (CM (CM_continueWithUsernameAndPassword username password
                         (isNeedReconnectAfterRequestAuth s))) s)"

definition continueWithPasswordImpl :: "string \<Rightarrow> bool \<Rightarrow> engine \<Rightarrow> engine" where
  "continueWithPasswordImpl password bSave s =
    (if password = [] then
       do_call (CM CM_clickDisconnect) s
     else
       let s = (if bSave then
                  do_call (Cred (setAuthCredentials (ask cm_getCustomOvpnConfigFileName s) [] password)) s
                else s)
       in do_call (CM (CM_continueWithPassword password (isNeedReconnectAfterRequestAuth s))) s)"

definition continueWithPrivKeyPasswordImpl :: "string \<Rightarrow> bool \<Rightarrow> engine \<Rightarrow> engine" where
  "continueWithPrivKeyPasswordImpl password bSave s =
    (if password = [] then
       do_call (CM CM_clickDisconnect) s
     else
       let s = (if bSave then
                  do_call (Cred (setPrivKeyPassword (ask cm_getCustomOvpnConfigFileName s) password)) s
                else s)
       in do_call (CM (CM_continueWithPrivKeyPassword password (isNeedReconnectAfterRequestAuth s))) s)"

subsection \<open>Helpers of the connect sequence (lines 2266-2444, 1132-1154, 2499-2543)\<close>

definition setProperty_senderSource :: "string option \<Rightarrow> engine \<Rightarrow> engine" where
  "setProperty_senderSource v s =
     do_call (CM (CM_setProperty_senderSource v)) (s\<lparr>senderSource := v\<rparr>)"

definition updateFirewallSettings :: "engine \<Rightarrow> engine" where
  "updateFirewallSettings s =
    (if ask fw_firewallActualState s then
       if ask csc_currentState s \<noteq> CONNECT_STATE_CONNECTED then
         do_call (FW (FW_firewallOn
           (fe_connectingIp (firewallExceptions s))
           (getIPAddressesForFirewall (env s) (firewallExceptions s))
           (isAllowLanTraffic (engineSettings s))
           (isCustomConfigsLocation (locationId s)))) s
       else
         do_call (FW (FW_firewallOn
           (ask cm_getLastConnectedIp s)
           (getIPAddressesForFirewallForConnectedState (env s) (firewallExceptions s))
           (isAllowLanTraffic (engineSettings s))
           (isCustomConfigsLocation (locationId s)))) s
     else s)"

definition addCustomRemoteIpToFirewallIfNeed :: "engine \<Rightarrow> engine" where
  "addCustomRemoteIpToFirewallIfNeed s =
    (let strHost = ask getRemoteIpFromExtraConfig s in
     if strHost \<noteq> [] then
       let (ip, s) =
         (if isIp (env s) strHost then (strHost, s)
          else if isDomain (env s) strHost then
            let s = do_call (Misc (DnsResolver_lookupBlocked strHost)) s;
                res = ask lookupBlocked s strHost
            in if \<not> fst res \<and> length (snd res) > 0 then
                 (hd (snd res), do_call (Misc (ExtraConfig_setDetectedIp (hd (snd res)))) s)
               else ([], do_call (Misc (ExtraConfig_setDetectedIp [])) s)
          else ([], do_call (Misc (ExtraConfig_setDetectedIp [])) s))
       in if ip \<noteq> [] then
            let (fe, bChanged) = setCustomRemoteIp ip (firewallExceptions s);
                s = s\<lparr>firewallExceptions := fe\<rparr>
            in if bChanged then updateFirewallSettings s else s
          else s
     else s)"

definition stopFetchingServerCredentials :: "engine \<Rightarrow> engine" where
  "stopFetchingServerCredentials s =
    (if apiResourcesManager s then
       do_call (ARM ARM_disconnect_serverCredentialsFetched) (s\<lparr>serverCredentialsFetched_slots := 0\<rparr>)
     else s)"

definition checkForceDisconnectNode :: "engine \<Rightarrow> engine" where
  "checkForceDisconnectNode s = (if \<not> ask cm_isDisconnected s then s else s)"

definition updateServerLocations :: "engine \<Rightarrow> engine" where
  "updateServerLocations s =
    (let s = (if apiResourcesManager s then
                do_call (Misc (LocationsModel_setApiLocations (ask arm_locations s) (ask arm_staticIps s))) s
              else s);
         s = do_call (Misc (LocationsModel_setCustomConfigLocations (ask customConfigs_getConfigs s))) s
     in if apiResourcesManager s then checkForceDisconnectNode s else s)"

definition doCheckUpdate :: "engine \<Rightarrow> engine" where
  "doCheckUpdate s =
    (let channel = updateChannel (engineSettings s);
         channel = (if overrideUpdateChannelWithInternal s then UPDATE_CHANNEL_INTERNAL else channel)
     in do_call (Misc (CheckUpdateManager_checkUpdate channel)) s)"

definition updateCurrentNetworkInterfaceImpl :: "engine \<Rightarrow> engine" where
  "updateCurrentNetworkInterfaceImpl s =
    (let networkInterface = ask nd_getCurrentNetworkInterface s in
     if \<not> bPrevNetworkInterfaceInitialized s \<or> networkInterface \<noteq> prevNetworkInterface s then
       let s = s\<lparr>prevNetworkInterface := networkInterface, bPrevNetworkInterfaceInitialized := True\<rparr>;
           s = (if helper s \<and> ask csc_currentState s = CONNECT_STATE_DISCONNECTED then
                  do_call (Helper (sendConnectStatus False
                    (isTerminateSockets (engineSettings s))
                    (isAllowLanTraffic (engineSettings s))
                    (ask detectAndCreateDefaultAdapterInfo s)
                    emptyAdapterInfo [] UNINITIALIZED)) s
                else s)
       in do_call (Emit (networkChanged networkInterface)) s
     else s)"

definition loginImpl :: "bool \<Rightarrow> string \<Rightarrow> string \<Rightarrow> string \<Rightarrow> engine \<Rightarrow> engine" where
  "loginImpl isUseAuthHash username password code2fa s =
    (let s = do_call (Misc SignOutHelper_reset) s;
         s = do_call (ARM ARM_new) (s\<lparr>apiResourcesManager := True, serverCredentialsFetched_slots := 0\<rparr>);
         s = do_call (ARM (ARM_connect_signal ''loginFailed'')) s;
         s = do_call (ARM (ARM_connect_signal ''sessionDeleted'')) s;
         s = do_call (ARM (ARM_connect_signal ''sessionUpdated'')) s;
         s = do_call (ARM (ARM_connect_signal ''locationsUpdated'')) s;
         s = do_call (ARM (ARM_connect_signal ''staticIpsUpdated'')) s;
         s = do_call (ARM (ARM_connect_signal ''notificationsUpdated'')) s
     in if isUseAuthHash then
          let s = do_call (ARM ARM_fetchAllWithAuthHash) s;
              s = do_call (ARM ARM_loadFromSettings) s
          in if ask arm_loadFromSettings_result s then
               let s = (if \<not> ask ec_isDisconnected s then
                          let s = do_call (Misc EmergencyController_blockingDisconnect) s;
                              s = do_call (ECSC (setDisconnectedState DISCONNECTED_ITSELF NO_CONNECT_ERROR)) s
                          in do_call (Emit emergencyDisconnected) s
                        else s);
                   s = do_call (Emit sessionStatusUpdated) s;
                   s = updateServerLocations s;
                   s = do_call (Misc (MyIp_getIP 1)) s;
                   s = doCheckUpdate s;
                   s = updateCurrentNetworkInterfaceImpl s
               in do_call (Emit (loginFinished True (ask arm_authHash s) (ask arm_portMap s))) s
             else do_call (ARM (ARM_connect_signal ''readyForLogin'')) s
        else
          let s = do_call (ARM (ARM_connect_signal ''readyForLogin'')) s
          in do_call (ARM (ARM_login username password code2fa)) s)"

definition doDisconnectRestoreStuff :: "engine \<Rightarrow> engine" where
  "doDisconnectRestoreStuff s =
    (let s = do_call (Misc VpnShare_onDisconnectedFromVPNEvent) s;
         proxySettings = ask getCurrentProxySettings s;
         s = do_call (Misc (HttpNetworkManager_setProxySettings
               (Some (curlAddress proxySettings, proxyUsername proxySettings, proxyPassword proxySettings)))) s;
         s = do_call (Misc DnsServersConfiguration_setDisconnectedState) s;
         s = (case os (env s) of
                Q_OS_WIN \<Rightarrow> s
              | _ \<Rightarrow> do_call (FW (FW_setInterfaceToSkip_posix [])) s);
         s = s\<lparr>firewallExceptions := fst (setConnectingIp [] (firewallExceptions s))\<rparr>;
         s = s\<lparr>firewallExceptions := fst (setDNSServers [] (firewallExceptions s))\<rparr>;
         s = (if ask fw_firewallActualState s then
                do_call (FW (FW_firewallOn
                  (fe_connectingIp (firewallExceptions s))
                  (getIPAddressesForFirewall (env s) (firewallExceptions s))
                  (isAllowLanTraffic (engineSettings s))
                  (isCustomConfigsLocation (locationId s)))) s
              else s);
         s = (case os (env s) of
                Q_OS_WIN \<Rightarrow> do_call (Helper (setIPv6EnabledInFirewall True)) s
              | Q_OS_MAC \<Rightarrow> do_call (Misc Ipv6Controller_mac_restoreIpv6) s
              | Q_OS_LINUX \<Rightarrow> s)
     in if \<not> isIgnoreNoApiConnectivity s \<and> apiResourcesManager s \<and> \<not> ask arm_isLoggedIn s then
          loginImpl True [] [] [] s
        else s)"

subsection \<open>The connect sequence (lines 951-1002, 2341-2397)\<close>

definition doConnect :: "bool \<Rightarrow> engine \<Rightarrow> engine" where
  "doConnect bEmitAuthError s =
    (case ask lm_getMutableLocationInfoById s (locationId s) of
       None \<Rightarrow>
         let s = do_call (CSC (setDisconnectedState DISCONNECTED_WITH_ERROR LOCATION_NOT_EXIST)) s
         in do_call (Misc (MyIp_getIP 1)) s
     | Some bli \<Rightarrow>
         if \<not> bli_isExistSelectedNode bli then
           let s = do_call (CSC (setDisconnectedState DISCONNECTED_WITH_ERROR LOCATION_NO_ACTIVE_NODES)) s
           in do_call (Misc (MyIp_getIP 1)) s
         else
           let s = s\<lparr>locationName := bli_name bli\<rparr>;
               networkInterface = ask nd_getCurrentNetworkInterface s
           in if apiResourcesManager s then
                let s = do_call (Misc Logger_startConnectionMode) s;
                    connectionSettings =
                      (if \<not> cs_isAutomatic (connectionSettingsOverride s) then connectionSettingsOverride s
                       else connectionSettingsForNetworkInterface (engineSettings s) (networkOrSsid networkInterface));
                    s = do_call (CM (CM_setLastKnownGoodProtocol
                          (networkLastKnownGoodProtocol (engineSettings s) (networkOrSsid networkInterface)))) s
                in do_call (CM (CM_clickConnect (ask arm_ovpnConfig s) (ask arm_serverCredentials s) bli
                      connectionSettings (ask arm_portMap s) (ask getCurrentProxySettings s)
                      bEmitAuthError (customOvpnConfigsPath (engineSettings s)))) s
              else
                let s = do_call (Misc Logger_startConnectionMode) s
                in do_call (CM (CM_clickConnect [] [] bli
                      (connectionSettingsForNetworkInterface (engineSettings s) (networkOrSsid networkInterface))
                      [] (ask getCurrentProxySettings s)
                      bEmitAuthError (customOvpnConfigsPath (engineSettings s)))) s)"

text \<open>Lines 981-993 of connectClickImpl: the automatic firewall before the connection.\<close>

definition connectClickImpl_firewall :: "engine \<Rightarrow> engine" where
  "connectClickImpl_firewall s =
    (if fw_mode (firewallSettings (engineSettings s)) = FIREWALL_MODE_AUTOMATIC
        \<and> fw_when (firewallSettings (engineSettings s)) = FIREWALL_WHEN_BEFORE_CONNECTION then
       let bFirewallStateOn = ask fw_firewallActualState s in
       if \<not> bFirewallStateOn then
         let s = do_call (FW (FW_firewallOn
                   (fe_connectingIp (firewallExceptions s))
                   (getIPAddressesForFirewall (env s) (firewallExceptions s))
                   (isAllowLanTraffic (engineSettings s))
                   (isCustomConfigsLocation (locationId s)))) s
         in do_call (Emit (firewallStateChanged True)) s
       else s
     else s)"

definition connectClickImpl :: "LocationID \<Rightarrow> ConnectionSettings \<Rightarrow> engine \<Rightarrow> engine" where
  "connectClickImpl loc cs s =
    (let s = s\<lparr>locationId := loc, connectionSettingsOverride := cs\<rparr> in
     if \<not> ask cm_isDisconnected s then
       let s = setProperty_senderSource (Some ''reconnect'') s
       in do_call (CM CM_clickDisconnect) s
     else if isBlockConnect s \<and> \<not> isCustomConfigsLocation (locationId s) then
       let s = do_call (CSC (setDisconnectedState DISCONNECTED_WITH_ERROR CONNECTION_BLOCKED)) s
       in do_call (Misc (MyIp_getIP 1)) s
     else
       let s = addCustomRemoteIpToFirewallIfNeed s;
           s = (case os (env s) of
                  Q_OS_WIN \<Rightarrow> do_call (Misc DnsInfo_win_outputDebugDnsInfo) s
                | Q_OS_MAC \<Rightarrow> do_call (Misc Ipv6Controller_mac_disableIpv6) s
                | Q_OS_LINUX \<Rightarrow> s);
           s = stopFetchingServerCredentials s;
           s = connectClickImpl_firewall s
       in doConnect True s)"

definition disconnectClickImpl :: "engine \<Rightarrow> engine" where
  "disconnectClickImpl s =
    (let s = stopFetchingServerCredentials s;
         s = setProperty_senderSource None s
     in do_call (CM CM_clickDisconnect) s)"

subsection \<open>Sign-out after the disconnect (lines 1053-1077)\<close>

definition signOutImplAfterDisconnect :: "bool \<Rightarrow> engine \<Rightarrow> engine" where
  "signOutImplAfterDisconnect keepFirewallOn s =
    (let s = do_call (Misc LocationsModel_clear) s;
         s = (case os (env s) of
                Q_OS_WIN \<Rightarrow> s
              | _ \<Rightarrow> do_call (FW (FW_enableFirewallOnBoot False)) s);
         s = (if apiResourcesManager s then
                let s = do_call (Misc (SignOutHelper_new_signOut (ask arm_authHash s))) s;
                    s = do_call (ARM ARM_reset) (s\<lparr>apiResourcesManager := False, serverCredentialsFetched_slots := 0\<rparr>)
                in do_call (ARM ARM_removeFromSettings) s
              else s);
         s = do_call (Misc GetWireGuardConfig_removeWireGuardSettings) s;
         s = (if \<not> keepFirewallOn then
                let s = do_call (FW FW_firewallOff) s
                in do_call (Emit (firewallStateChanged False)) s
              else s)
     in do_call (Emit signOutFinished) s)"

subsection \<open>Events of the ConnectionManager (lines 1288-1587)\<close>

text \<open>Lines 1301-1331 of onConnectionManagerConnected: the automatic firewall after the
  connection; the result is the local \<^verbatim>\<open>isFirewallAlreadyEnabled\<close>.\<close>

definition onConnectionManagerConnected_firewall :: "engine \<Rightarrow> bool \<times> engine" where
  "onConnectionManagerConnected_firewall s =
    (if fw_mode (firewallSettings (engineSettings s)) = FIREWALL_MODE_AUTOMATIC then
       let isAllowFirewallAfterConnection = ask cm_isAllowFirewallAfterConnection s in
       if isAllowFirewallAfterConnection
          \<and> fw_when (firewallSettings (engineSettings s)) = FIREWALL_WHEN_AFTER_CONNECTION then
         if \<not> ask fw_firewallActualState s then
           let s = do_call (FW (FW_firewallOn
                     (ask cm_getLastConnectedIp s)
                     (getIPAddressesForFirewallForConnectedState (env s) (firewallExceptions s))
                     (isAllowLanTraffic (engineSettings s))
                     (isCustomConfigsLocation (locationId s)))) s;
               s = do_call (Emit (firewallStateChanged True)) s
           in (True, s)
         else (False, s)
       else if \<not> isAllowFirewallAfterConnection
          \<and> fw_when (firewallSettings (engineSettings s)) = FIREWALL_WHEN_BEFORE_CONNECTION then
         if ask fw_firewallActualState s then
           let s = do_call (FW FW_firewallOff) s;
               s = do_call (Emit (firewallStateChanged False)) s
           in (False, s)
         else (False, s)
       else (False, s)
     else (False, s))"

text \<open>Lines 1364-1400 of onConnectionManagerConnected: the MTU of the VPN adapter.\<close>

definition onConnectionManagerConnected_mtu :: "string \<Rightarrow> engine \<Rightarrow> engine" where
  "onConnectionManagerConnected_mtu adapter s =
    (if isIkev2Protocol (ask cm_currentProtocol s) \<or> isWireGuardProtocol (ask cm_currentProtocol s) then
       if \<not> ps_isAutomatic (packetSize s) then
         let mtuForProtocol =
               (if isWireGuardProtocol (ask cm_currentProtocol s) then
                  let (wgoffset, advParamWireguardMtuOffset) = getMtuOffsetWireguard (env s);
                      wgoffset = (if \<not> advParamWireguardMtuOffset then MTU_OFFSET_WG (env s) else wgoffset)
                  in ps_mtu (packetSize s) - wgoffset
                else
                  let (ikev2offset, advParamIkevMtuOffset) = getMtuOffsetIkev2 (env s);
                      ikev2offset = (if \<not> advParamIkevMtuOffset then MTU_OFFSET_IKEV2 (env s) else ikev2offset)
                  in ps_mtu (packetSize s) - ikev2offset)
         in if 0 <s mtuForProtocol then
              do_call (Helper (changeMtu adapter mtuForProtocol)) s
            else s
       else s
     else s)"

definition onConnectionManagerConnected :: "engine \<Rightarrow> engine" where
  "onConnectionManagerConnected s =
    (let adapter = adapterName (ask cm_getVpnAdapterInfo s);
         s = (case os (env s) of
                Q_OS_WIN \<Rightarrow>
                  if \<not> isWireGuardProtocol (ask cm_currentProtocol s) then
                    do_call (Helper (AdapterMetricsController_updateMetrics adapter)) s
                  else s
              | _ \<Rightarrow> do_call (FW (FW_setInterfaceToSkip_posix adapter)) s);
         (isFirewallAlreadyEnabled, s) = onConnectionManagerConnected_firewall s;
         s = do_call (Helper (sendConnectStatus True
               (isTerminateSockets (engineSettings s))
               (isAllowLanTraffic (engineSettings s))
               (ask cm_getDefaultAdapterInfo s) (ask cm_getVpnAdapterInfo s)
               (ask cm_getLastConnectedIp s) (lastConnectingProtocol s))) s;
         result = ask helper_sendConnectStatus_result s;
         s = (if \<not> result then do_call (Emit helperSplitTunnelingStartFailed) s else s);
         s = (if ask fw_firewallActualState s \<and> \<not> isFirewallAlreadyEnabled then
                do_call (FW (FW_firewallOn
                  (ask cm_getLastConnectedIp s)
                  (getIPAddressesForFirewallForConnectedState (env s) (firewallExceptions s))
                  (isAllowLanTraffic (engineSettings s))
                  (isCustomConfigsLocation (locationId s)))) s
              else s);
         s = (case os (env s) of
                Q_OS_WIN \<Rightarrow>
                  let s = (if ask cm_connectedDnsInfo_type s = CONNECTED_DNS_TYPE_CUSTOM
                              \<and> ask cm_currentProtocol s \<noteq> WIREGUARD then
                             do_call (Helper (setCustomDnsWhileConnected
                               (ifIndex (ask cm_getVpnAdapterInfo s))
                               (take 1 (dnsServers (ask cm_getVpnAdapterInfo s))))) s
                           else s)
                  in do_call (Helper (setIPv6EnabledInFirewall False)) s
              | _ \<Rightarrow> s);
         s = onConnectionManagerConnected_mtu adapter s;
         s = (if ask cm_isStaticIpsLocation s then
                do_call (FW (FW_whitelistPorts (ask cm_getStatisIps s))) s
              else s);
         s = do_call (Misc (HttpNetworkManager_setProxySettings None)) s;
         s = do_call (Misc (DnsServersConfiguration_setConnectedState
               (dnsServers (ask cm_getVpnAdapterInfo s)))) s;
         s = (if isTerminateSockets (engineSettings s) then
                case os (env s) of
                  Q_OS_WIN \<Rightarrow> do_call (Helper (closeAllTcpConnections (isAllowLanTraffic (engineSettings s)))) s
                | _ \<Rightarrow> s
              else s);
         s = do_call (Misc (VpnShare_onConnectedToVPNEvent adapter)) s;
         s = do_call (CSC (setConnectedState (locationId s))) s;
         s = do_call (CM CM_startTunnelTests) s
     in if apiResourcesManager s \<and> \<not> ask arm_isLoggedIn s then
          loginImpl True [] [] [] s
        else s)"

definition enableDohSettings :: "engine \<Rightarrow> engine" where
  "enableDohSettings s =
    (if ask isDohSupported s then do_call (Helper enableDohSettings_helper) s else s)"

text \<open>Lines 1485-1488: the end of onConnectionManagerDisconnected, which the reconnect
  branch leaves out by its \<^verbatim>\<open>return\<close>.\<close>

definition onConnectionManagerDisconnected_finish :: "DISCONNECT_REASON \<Rightarrow> engine \<Rightarrow> engine" where
  "onConnectionManagerDisconnected_finish reason s =
    (let s = s\<lparr>connectionSettingsOverride := noOverride\<rparr>
     in do_call (CSC (setDisconnectedState reason NO_CONNECT_ERROR)) s)"

text \<open>Lines 1433-1459 of onConnectionManagerDisconnected: the static-IP ports, the
  sender source (read and reset) and the restore; the result is the local
  \<^verbatim>\<open>senderSource\<close>, empty when the property was not valid.\<close>

definition onConnectionManagerDisconnected_restore :: "engine \<Rightarrow> string \<times> engine" where
  "onConnectionManagerDisconnected_restore s =
    (let s = (case os (env s) of Q_OS_WIN \<Rightarrow> enableDohSettings s | _ \<Rightarrow> s);
         s = (if ask cm_isStaticIpsLocation s then do_call (FW FW_deleteWhitelistPorts) s else s);
         (senderSource, s) =
           (case senderSource s of
              Some v \<Rightarrow> (v, setProperty_senderSource None s)
            | None \<Rightarrow> ([], s));
         s = doDisconnectRestoreStuff s;
         s = (case os (env s) of
                Q_OS_WIN \<Rightarrow> do_call (Misc DnsInfo_win_outputDebugDnsInfo) s
              | _ \<Rightarrow> s)
     in (senderSource, s))"

definition onConnectionManagerDisconnected :: "DISCONNECT_REASON \<Rightarrow> engine \<Rightarrow> engine" where
  "onConnectionManagerDisconnected reason s =
    (let (senderSource, s) = onConnectionManagerDisconnected_restore s
     in if senderSource = ''signOutImpl'' then
          onConnectionManagerDisconnected_finish reason (signOutImplAfterDisconnect False s)
        else if senderSource = ''signOutImplKeepFirewallOn'' then
          onConnectionManagerDisconnected_finish reason (signOutImplAfterDisconnect True s)
        else if senderSource = ''reconnect'' then
          connectClickImpl (locationId s) (connectionSettingsOverride s) s
        else
          let s = do_call (Misc (MyIp_getIP 1)) s;
              s = (if reason = DISCONNECTED_BY_USER
                      \<and> fw_mode (firewallSettings (engineSettings s)) = FIREWALL_MODE_AUTOMATIC
                      \<and> ask fw_firewallActualState s then
                     let s = do_call (FW FW_firewallOff) s
                     in do_call (Emit (firewallStateChanged False)) s
                   else s)
          in onConnectionManagerDisconnected_finish reason s)"


subsection \<open>The refetched server credentials (lines 2259-2264)\<close>



subsection \<open>Network change (lines 2020-2046)\<close>

definition onNetworkChange :: "NetworkInterface \<Rightarrow> engine \<Rightarrow> engine" where
  "onNetworkChange networkInterface s =
    (let s = (if networkOrSsid networkInterface \<noteq> [] then
                let s = (if apiResourcesManager s then
                           do_call (CM (CM_updateConnectionSettings
                             (connectionSettingsForNetworkInterface (engineSettings s) (networkOrSsid networkInterface))
                             (ask arm_portMap s)
                             (ask getCurrentProxySettings s))) s
                         else
                           do_call (CM (CM_updateConnectionSettings
                             (connectionSettingsForNetworkInterface (engineSettings s) (networkOrSsid networkInterface))
                             []
                             (ask getCurrentProxySettings s))) s)
                in if helper s \<and> ask csc_currentState s = CONNECT_STATE_DISCONNECTED then
                     do_call (Helper (sendConnectStatus False
                       (isTerminateSockets (engineSettings s))
                       (isAllowLanTraffic (engineSettings s))
                       (ask detectAndCreateDefaultAdapterInfo s)
                       emptyAdapterInfo [] UNINITIALIZED)) s
                   else s
              else s)
     in do_call (Emit (networkChanged networkInterface)) s)"

section \<open>Notions used by the properties\<close>

text \<open>The header overhead the Engine subtracts for a protocol: the advanced parameter of
  ExtraConfig when it is set, the built-in offset otherwise.\<close>

definition protocolOverhead :: "environment \<Rightarrow> Protocol \<Rightarrow> c_int" where
  "protocolOverhead e p =
    (if isWireGuardProtocol p then
       (if snd (getMtuOffsetWireguard e) then fst (getMtuOffsetWireguard e) else MTU_OFFSET_WG e)
     else
       (if snd (getMtuOffsetIkev2 e) then fst (getMtuOffsetIkev2 e) else MTU_OFFSET_IKEV2 e))"

text \<open>Calls on the ConnectionManager; its connect and disconnect requests.\<close>

fun is_CM :: "call \<Rightarrow> bool" where
  "is_CM (CM c) = True"
| "is_CM c = False"

fun is_clickConnect :: "call \<Rightarrow> bool" where
  "is_clickConnect (CM (CM_clickConnect ovpn creds bli cs pm px b path)) = True"
| "is_clickConnect c = False"

definition is_connect_or_disconnect :: "call \<Rightarrow> bool" where
  "is_connect_or_disconnect c = (c = CM CM_clickDisconnect \<or> is_clickConnect c)"

text \<open>Calls on the primary ConnectStateController.\<close>

fun is_CSC :: "call \<Rightarrow> bool" where
  "is_CSC (CSC c) = True"
| "is_CSC c = False"

text \<open>Lines 971-993 of connectClickImpl: what it does between the two early returns
  and doConnect.\<close>

definition connectClickImpl_prepare :: "engine \<Rightarrow> engine" where
  "connectClickImpl_prepare s =
     connectClickImpl_firewall (stopFetchingServerCredentials
       (let s = addCustomRemoteIpToFirewallIfNeed s
        in case os (env s) of
             Q_OS_WIN \<Rightarrow> do_call (Misc DnsInfo_win_outputDebugDnsInfo) s
           | Q_OS_MAC \<Rightarrow> do_call (Misc Ipv6Controller_mac_disableIpv6) s
           | Q_OS_LINUX \<Rightarrow> s))"

text \<open>Lines 971-979 of connectClickImpl: what it does between the two early returns
  and the automatic firewall.\<close>

definition connectClickImpl_before_firewall :: "engine \<Rightarrow> engine" where
  "connectClickImpl_before_firewall s =
     stopFetchingServerCredentials
       (let s = addCustomRemoteIpToFirewallIfNeed s
        in case os (env s) of
             Q_OS_WIN \<Rightarrow> do_call (Misc DnsInfo_win_outputDebugDnsInfo) s
           | Q_OS_MAC \<Rightarrow> do_call (Misc Ipv6Controller_mac_disableIpv6) s
           | Q_OS_LINUX \<Rightarrow> s)"

text \<open>Lines 1290-1299 of onConnectionManagerConnected: what it does before the automatic
  firewall.\<close>

definition onConnectionManagerConnected_begin :: "engine \<Rightarrow> engine" where
  "onConnectionManagerConnected_begin s =
     (case os (env s) of
        Q_OS_WIN \<Rightarrow>
          if \<not> isWireGuardProtocol (ask cm_currentProtocol s) then
            do_call (Helper (AdapterMetricsController_updateMetrics (adapterName (ask cm_getVpnAdapterInfo s)))) s
          else s
      | _ \<Rightarrow> do_call (FW (FW_setInterfaceToSkip_posix (adapterName (ask cm_getVpnAdapterInfo s)))) s)"

text \<open>The firewall is turned on by a call of FirewallController::firewallOn made while
  the controller reports the firewall off; the same call made while the firewall is
  reported on only applies the rules again. \<open>enablings e pre cs\<close> lists the calls
  among \<open>cs\<close>, made after the calls \<open>pre\<close>, that turn the firewall on, and
  \<open>firewall_enabled_by s s'\<close> those made between two states of one run.\<close>

fun is_firewallOn :: "call \<Rightarrow> bool" where
  "is_firewallOn (FW (FW_firewallOn ip ips l c)) = True"
| "is_firewallOn c = False"

fun enablings :: "environment \<Rightarrow> call list \<Rightarrow> call list \<Rightarrow> call list" where
  "enablings e pre [] = []"
| "enablings e pre (c # cs) =
     (if is_firewallOn c \<and> \<not> fw_firewallActualState e pre then [c] else [])
     @ enablings e (pre @ [c]) cs"

definition firewall_enabled_by :: "engine \<Rightarrow> engine \<Rightarrow> call list" where
  "firewall_enabled_by s s' = enablings (env s) (calls s) (new_calls s s')"

text \<open>The calls of the housekeeping functions (restore, login, firewall refresh): none
  on the ConnectionManager, the primary ConnectStateController or the credentials
  storage, no posted method, no MTU change, no firewallStateChanged and no credential
  request.\<close>

fun aux_call :: "call \<Rightarrow> bool" where
  "aux_call (CM c) = False"
| "aux_call (CSC c) = False"
| "aux_call (Queued c) = False"
| "aux_call (Cred c) = False"
| "aux_call (Helper (changeMtu a v)) = False"
| "aux_call (Emit (firewallStateChanged b)) = False"
| "aux_call (Emit requestUsername) = False"
| "aux_call (Emit requestPrivKeyPassword) = False"
| "aux_call c = True"

text \<open>The member variables that only the handlers themselves assign.\<close>

definition frame :: "engine \<Rightarrow> environment \<times> (bool \<times> bool \<times> bool \<times> bool \<times> bool \<times> bool \<times> bool)
    \<times> LocationID \<times> ConnectionSettings \<times> EngineSettings \<times> PacketSize \<times> Protocol \<times> string option" where
  "frame s = (env s,
     (bInitialized s, helper s, isBlockConnect s, isNeedReconnectAfterRequestAuth s,
      isIgnoreNoApiConnectivity s, overrideUpdateChannelWithInternal s, apiResourcesManager s),
     locationId s, connectionSettingsOverride s, engineSettings s, packetSize s,
     lastConnectingProtocol s, senderSource s)"

text \<open>\<open>run P s s'\<close>: \<open>s'\<close> comes from \<open>s\<close> by further calls, all of which satisfy
  \<open>P\<close>, with the frame unchanged.\<close>

definition run :: "(call \<Rightarrow> bool) \<Rightarrow> engine \<Rightarrow> engine \<Rightarrow> bool" where
  "run P s s' \<longleftrightarrow>
     calls s' = calls s @ new_calls s s' \<and> list_all P (new_calls s s') \<and> frame s' = frame s"

text \<open>\<open>no_enabling s s'\<close>: \<open>s'\<close> comes from \<open>s\<close> by further calls, none of
  which turns the firewall on, with the frame unchanged.\<close>

definition no_enabling :: "engine \<Rightarrow> engine \<Rightarrow> bool" where
  "no_enabling s s' \<longleftrightarrow>
     calls s' = calls s @ new_calls s s' \<and> frame s' = frame s \<and> firewall_enabled_by s s' = []"

section \<open>A sample configuration\<close>

text \<open>A Linux build, logged in, with one known location (id 1) and one location without
  an active node (id 2); the ConnectionManager is disconnected, the firewall is off.\<close>

definition toronto :: LocationID where
  "toronto = \<lparr>loc_type = API_LOCATION, loc_id = 1, loc_city = ''Toronto''\<rparr>"

definition paris :: LocationID where
  "paris = \<lparr>loc_type = API_LOCATION, loc_id = 2, loc_city = ''Paris''\<rparr>"


definition myConfig :: LocationID where
  "myConfig = \<lparr>loc_type = CUSTOM_CONFIGS_LOCATION, loc_id = 1, loc_city = ''my.ovpn''\<rparr>"

definition automaticSettings :: ConnectionSettings where
  "automaticSettings = \<lparr>cs_protocol = WIREGUARD, cs_port = 443, cs_isAutomatic = True\<rparr>"

definition env0 :: environment where
  "env0 = \<lparr>
     os = Q_OS_LINUX,
     MTU_OFFSET_WG = 80,
     MTU_OFFSET_IKEV2 = 80,
     getMtuOffsetWireguard = (0, False),
     getMtuOffsetIkev2 = (0, False),
     getRemoteIpFromExtraConfig = (\<lambda>tr. []),
     isIp = (\<lambda>h. False),
     isDomain = (\<lambda>h. False),
     lookupBlocked = (\<lambda>tr h. (True, [])),
     getIPAddressesForFirewall = (\<lambda>fe. fe_hostIps fe),
     getIPAddressesForFirewallForConnectedState = (\<lambda>fe. fe_hostIps fe),
     cm_isDisconnected = (\<lambda>tr. True),
     cm_isStaticIpsLocation = (\<lambda>tr. False),
     cm_getStatisIps = (\<lambda>tr. []),
     cm_isAllowFirewallAfterConnection = (\<lambda>tr. True),
     cm_getLastConnectedIp = (\<lambda>tr. ''10.0.0.1''),
     cm_getVpnAdapterInfo = (\<lambda>tr. \<lparr>adapterName = ''utun420'', ifIndex = 7, dnsServers = [''10.255.255.1''], gateway = ''10.0.0.1''\<rparr>),
     cm_getDefaultAdapterInfo = (\<lambda>tr. \<lparr>adapterName = ''eth0'', ifIndex = 2, dnsServers = [''192.168.1.1''], gateway = ''192.168.1.1''\<rparr>),
     cm_currentProtocol = (\<lambda>tr. WIREGUARD),
     cm_connectedDnsInfo_type = (\<lambda>tr. CONNECTED_DNS_TYPE_AUTO),
     cm_isCustomOvpnConfigCurrentConnection = (\<lambda>tr. False),
     cm_getCustomOvpnConfigFileName = (\<lambda>tr. ''my.ovpn''),
     csc_currentState = (\<lambda>tr. CONNECT_STATE_DISCONNECTED),
     fw_firewallActualState = (\<lambda>tr. False),
     helper_sendConnectStatus_result = (\<lambda>tr. True),
     detectAndCreateDefaultAdapterInfo = (\<lambda>tr. \<lparr>adapterName = ''eth0'', ifIndex = 2, dnsServers = [''192.168.1.1''], gateway = ''192.168.1.1''\<rparr>),
     isDohSupported = (\<lambda>tr. False),
     lm_getMutableLocationInfoById = (\<lambda>tr l.
        if loc_id l = 1 then Some \<lparr>bli_locationId = l, bli_name = loc_city l, bli_isExistSelectedNode = True\<rparr>
        else if loc_id l = 2 then Some \<lparr>bli_locationId = l, bli_name = loc_city l, bli_isExistSelectedNode = False\<rparr>
        else None),
     nd_getCurrentNetworkInterface = (\<lambda>tr. \<lparr>networkOrSsid = ''home'', interfaceName = ''eth0''\<rparr>),
     getCurrentProxySettings = (\<lambda>tr. \<lparr>curlAddress = [], proxyUsername = [], proxyPassword = []\<rparr>),
     arm_isLoggedIn = (\<lambda>tr. True),
     arm_loadFromSettings_result = (\<lambda>tr. True),
     arm_authHash = (\<lambda>tr. ''hash''),
     arm_portMap = (\<lambda>tr. [443]),
     arm_ovpnConfig = (\<lambda>tr. ''client''),
     arm_serverCredentials = (\<lambda>tr. [''user'', ''secret'']),
     arm_locations = (\<lambda>tr. [''Toronto'', ''Paris'']),
     arm_staticIps = (\<lambda>tr. []),
     customConfigs_getConfigs = (\<lambda>tr. []),
     ec_isDisconnected = (\<lambda>tr. True)\<rparr>"

definition engine0 :: engine where
  "engine0 = \<lparr>
     env = env0,
     calls = [],
     bInitialized = True,
     helper = True,
     locationId = toronto,
     locationName = [],
     connectionSettingsOverride = noOverride,
     isBlockConnect = False,
     isNeedReconnectAfterRequestAuth = False,
     isIgnoreNoApiConnectivity = False,
     overrideUpdateChannelWithInternal = False,
     engineSettings = \<lparr>
       firewallSettings = \<lparr>fw_mode = FIREWALL_MODE_AUTOMATIC, fw_when = FIREWALL_WHEN_BEFORE_CONNECTION\<rparr>,
       isAllowLanTraffic = False,
       isTerminateSockets = False,
       connectionSettingsForNetworkInterface = (\<lambda>n. automaticSettings),
       networkLastKnownGoodProtocol = (\<lambda>n. WIREGUARD),
       customOvpnConfigsPath = [],
       updateChannel = UPDATE_CHANNEL_RELEASE\<rparr>,
     packetSize = \<lparr>ps_isAutomatic = False, ps_mtu = 1500\<rparr>,
     firewallExceptions = \<lparr>fe_connectingIp = [], fe_dnsServers = [], fe_customRemoteIp = [],
       fe_locationsPingIps = [], fe_customConfigPingIps = [], fe_proxyIp = [], fe_hostIps = []\<rparr>,
     lastConnectingProtocol = WIREGUARD,
     prevNetworkInterface = \<lparr>networkOrSsid = [], interfaceName = []\<rparr>,
     bPrevNetworkInterfaceInitialized = False,
     senderSource = None,
     apiResourcesManager = True,
     serverCredentialsFetched_slots = 0\<rparr>"

text \<open>The same with the firewall timing "after connection".\<close>

definition engine0_after :: engine where
  "engine0_after = engine0\<lparr>engineSettings := (engineSettings engine0)\<lparr>firewallSettings :=
     \<lparr>fw_mode = FIREWALL_MODE_AUTOMATIC, fw_when = FIREWALL_WHEN_AFTER_CONNECTION\<rparr>\<rparr>\<rparr>"


text \<open>The same while connected to Paris: the ConnectionManager reports disconnected
  once its disconnect has been requested.\<close>

definition engine0_connected :: engine where
  "engine0_connected = engine0\<lparr>
     env := env0\<lparr>cm_isDisconnected := (\<lambda>tr. CM CM_clickDisconnect \<in> set tr),
                 csc_currentState := (\<lambda>tr. CONNECT_STATE_CONNECTED)\<rparr>,
     locationId := paris\<rparr>"

text \<open>The same with the block-connect flag set.\<close>

definition engine0_blocked :: engine where
  "engine0_blocked = engine0_connected\<lparr>isBlockConnect := True\<rparr>"

text \<open>The sample Engine with a firewall controller that reports the firewall on once
  firewallOn has been called.\<close>

definition engine0_live :: engine where
  "engine0_live = engine0\<lparr>env := env0\<lparr>fw_firewallActualState := list_ex is_firewallOn\<rparr>\<rparr>"

section \<open>Basic facts\<close>

lemma do_call_simps [simp]:
  "calls (do_call c s) = calls s @ [c]"
  "env (do_call c s) = env s"
  "bInitialized (do_call c s) = bInitialized s"
  "helper (do_call c s) = helper s"
  "locationId (do_call c s) = locationId s"
  "locationName (do_call c s) = locationName s"
  "connectionSettingsOverride (do_call c s) = connectionSettingsOverride s"
  "isBlockConnect (do_call c s) = isBlockConnect s"
  "isNeedReconnectAfterRequestAuth (do_call c s) = isNeedReconnectAfterRequestAuth s"
  "isIgnoreNoApiConnectivity (do_call c s) = isIgnoreNoApiConnectivity s"
  "overrideUpdateChannelWithInternal (do_call c s) = overrideUpdateChannelWithInternal s"
  "engineSettings (do_call c s) = engineSettings s"
  "packetSize (do_call c s) = packetSize s"
  "firewallExceptions (do_call c s) = firewallExceptions s"
  "lastConnectingProtocol (do_call c s) = lastConnectingProtocol s"
  "prevNetworkInterface (do_call c s) = prevNetworkInterface s"
  "bPrevNetworkInterfaceInitialized (do_call c s) = bPrevNetworkInterfaceInitialized s"
  "senderSource (do_call c s) = senderSource s"
  "apiResourcesManager (do_call c s) = apiResourcesManager s"
  "serverCredentialsFetched_slots (do_call c s) = serverCredentialsFetched_slots s"
  by (simp_all add: do_call_def)

lemma new_calls_self [simp]: "new_calls s s = []"
  by (simp add: new_calls_def)

lemma new_calls_append: "calls s' = calls s @ xs \<Longrightarrow> new_calls s s' = xs"
  by (simp add: new_calls_def)

lemma new_calls_upd [simp]: "new_calls s (s\<lparr>calls := calls s @ xs\<rparr>) = xs"
  by (simp add: new_calls_def)

text \<open>The sample configuration, field by field.\<close>

lemma env0_fields:
  "os env0 = Q_OS_LINUX"
  "MTU_OFFSET_WG env0 = 80"
  "MTU_OFFSET_IKEV2 env0 = 80"
  "getMtuOffsetWireguard env0 = (0, False)"
  "getMtuOffsetIkev2 env0 = (0, False)"
  "getRemoteIpFromExtraConfig env0 tr = []"
  "isIp env0 h = False"
  "isDomain env0 h = False"
  "lookupBlocked env0 tr h = (True, [])"
  "getIPAddressesForFirewall env0 fe = fe_hostIps fe"
  "getIPAddressesForFirewallForConnectedState env0 fe = fe_hostIps fe"
  "cm_isDisconnected env0 tr = True"
  "cm_isStaticIpsLocation env0 tr = False"
  "cm_getStatisIps env0 tr = []"
  "cm_isAllowFirewallAfterConnection env0 tr = True"
  "cm_getLastConnectedIp env0 tr = ''10.0.0.1''"
  "cm_getVpnAdapterInfo env0 tr = \<lparr>adapterName = ''utun420'', ifIndex = 7, dnsServers = [''10.255.255.1''], gateway = ''10.0.0.1''\<rparr>"
  "cm_getDefaultAdapterInfo env0 tr = \<lparr>adapterName = ''eth0'', ifIndex = 2, dnsServers = [''192.168.1.1''], gateway = ''192.168.1.1''\<rparr>"
  "cm_currentProtocol env0 tr = WIREGUARD"
  "cm_connectedDnsInfo_type env0 tr = CONNECTED_DNS_TYPE_AUTO"
  "cm_isCustomOvpnConfigCurrentConnection env0 tr = False"
  "cm_getCustomOvpnConfigFileName env0 tr = ''my.ovpn''"
  "csc_currentState env0 tr = CONNECT_STATE_DISCONNECTED"
  "fw_firewallActualState env0 tr = False"
  "helper_sendConnectStatus_result env0 tr = True"
  "detectAndCreateDefaultAdapterInfo env0 tr = \<lparr>adapterName = ''eth0'', ifIndex = 2, dnsServers = [''192.168.1.1''], gateway = ''192.168.1.1''\<rparr>"
  "isDohSupported env0 tr = False"
  "lm_getMutableLocationInfoById env0 tr l =
     (if loc_id l = 1 then Some \<lparr>bli_locationId = l, bli_name = loc_city l, bli_isExistSelectedNode = True\<rparr>
      else if loc_id l = 2 then Some \<lparr>bli_locationId = l, bli_name = loc_city l, bli_isExistSelectedNode = False\<rparr>
      else None)"
  "nd_getCurrentNetworkInterface env0 tr = \<lparr>networkOrSsid = ''home'', interfaceName = ''eth0''\<rparr>"
  "getCurrentProxySettings env0 tr = \<lparr>curlAddress = [], proxyUsername = [], proxyPassword = []\<rparr>"
  "arm_isLoggedIn env0 tr = True"
  "arm_loadFromSettings_result env0 tr = True"
  "arm_authHash env0 tr = ''hash''"
  "arm_portMap env0 tr = [443]"
  "arm_ovpnConfig env0 tr = ''client''"
  "arm_serverCredentials env0 tr = [''user'', ''secret'']"
  "arm_locations env0 tr = [''Toronto'', ''Paris'']"
  "arm_staticIps env0 tr = []"
  "customConfigs_getConfigs env0 tr = []"
  "ec_isDisconnected env0 tr = True"
  by (simp_all add: env0_def)

lemma engine0_fields:
  "env engine0 = env0"
  "calls engine0 = []"
  "bInitialized engine0 = True"
  "helper engine0 = True"
  "locationId engine0 = toronto"
  "locationName engine0 = []"
  "connectionSettingsOverride engine0 = noOverride"
  "isBlockConnect engine0 = False"
  "isNeedReconnectAfterRequestAuth engine0 = False"
  "isIgnoreNoApiConnectivity engine0 = False"
  "overrideUpdateChannelWithInternal engine0 = False"
  "firewallSettings (engineSettings engine0) = \<lparr>fw_mode = FIREWALL_MODE_AUTOMATIC, fw_when = FIREWALL_WHEN_BEFORE_CONNECTION\<rparr>"
  "isAllowLanTraffic (engineSettings engine0) = False"
  "isTerminateSockets (engineSettings engine0) = False"
  "connectionSettingsForNetworkInterface (engineSettings engine0) n = automaticSettings"
  "networkLastKnownGoodProtocol (engineSettings engine0) n = WIREGUARD"
  "customOvpnConfigsPath (engineSettings engine0) = []"
  "updateChannel (engineSettings engine0) = UPDATE_CHANNEL_RELEASE"
  "packetSize engine0 = \<lparr>ps_isAutomatic = False, ps_mtu = 1500\<rparr>"
  "firewallExceptions engine0 = \<lparr>fe_connectingIp = [], fe_dnsServers = [], fe_customRemoteIp = [],
       fe_locationsPingIps = [], fe_customConfigPingIps = [], fe_proxyIp = [], fe_hostIps = []\<rparr>"
  "lastConnectingProtocol engine0 = WIREGUARD"
  "prevNetworkInterface engine0 = \<lparr>networkOrSsid = [], interfaceName = []\<rparr>"
  "bPrevNetworkInterfaceInitialized engine0 = False"
  "senderSource engine0 = None"
  "apiResourcesManager engine0 = True"
  "serverCredentialsFetched_slots engine0 = 0"
  by (simp_all add: engine0_def)

lemmas eval_simps = env0_fields engine0_fields ask_def Let_def new_calls_def
  isWireGuardProtocol_def isIkev2Protocol_def isCustomConfigsLocation_def word_sless_alt

section \<open>Commands that do nothing or fall back\<close>

text \<open>C7: disconnectClick, called while the connect state is neither Connected nor
  Connecting (for instance already Disconnected), is a complete no-op: the Engine's state
  is the same afterwards, so no Disconnecting transition is set, no signal is emitted, no
  method is posted and no firewall or DNS call is made.\<close>

theorem C7_disconnectClick_noop:
  "ask csc_currentState s \<noteq> CONNECT_STATE_CONNECTED \<Longrightarrow>
   ask csc_currentState s \<noteq> CONNECT_STATE_CONNECTING \<Longrightarrow>
   disconnectClick s = s \<and> new_calls s (disconnectClick s) = []"
  by (simp add: disconnectClick_def)

theorem C7_disconnectClick_noop_witness:
  "ask csc_currentState engine0 = CONNECT_STATE_DISCONNECTED
   \<and> disconnectClick engine0 = engine0 \<and> new_calls engine0 (disconnectClick engine0) = []"
  using C7_disconnectClick_noop [of engine0]
  by (simp add: ask_def engine0_def env0_def)

text \<open>C8: each credential continuation, given an empty credential (for the
  username/password variant: both strings empty), only calls
  ConnectionManager::clickDisconnect and does not resume; given a non-empty credential
  it resumes the attempt with that credential, after storing it when \<open>bSave\<close> is set.\<close>

theorem C8_continueWith_empty_credential_disconnects:
  "(username = [] \<and> password = [] \<longrightarrow>
      continueWithUsernameAndPasswordImpl username password bSave s =
        s\<lparr>calls := calls s @ [CM CM_clickDisconnect]\<rparr>)
   \<and> (\<not> (username = [] \<and> password = []) \<longrightarrow>
      continueWithUsernameAndPasswordImpl username password bSave s =
        s\<lparr>calls := calls s
          @ (if bSave then [Cred (setAuthCredentials (ask cm_getCustomOvpnConfigFileName s) username password)] else [])
          @ [CM (CM_continueWithUsernameAndPassword username password (isNeedReconnectAfterRequestAuth s))]\<rparr>)
   \<and> (password = [] \<longrightarrow>
      continueWithPasswordImpl password bSave s = s\<lparr>calls := calls s @ [CM CM_clickDisconnect]\<rparr>
      \<and> continueWithPrivKeyPasswordImpl password bSave s = s\<lparr>calls := calls s @ [CM CM_clickDisconnect]\<rparr>)
   \<and> (password \<noteq> [] \<longrightarrow>
      continueWithPasswordImpl password bSave s =
        s\<lparr>calls := calls s
          @ (if bSave then [Cred (setAuthCredentials (ask cm_getCustomOvpnConfigFileName s) [] password)] else [])
          @ [CM (CM_continueWithPassword password (isNeedReconnectAfterRequestAuth s))]\<rparr>
      \<and> continueWithPrivKeyPasswordImpl password bSave s =
        s\<lparr>calls := calls s
          @ (if bSave then [Cred (setPrivKeyPassword (ask cm_getCustomOvpnConfigFileName s) password)] else [])
          @ [CM (CM_continueWithPrivKeyPassword password (isNeedReconnectAfterRequestAuth s))]\<rparr>)"
  by (simp add: continueWithUsernameAndPasswordImpl_def continueWithPasswordImpl_def
      continueWithPrivKeyPasswordImpl_def Let_def do_call_def ask_def)

theorem C8_continueWith_empty_credential_disconnects_witness:
  "calls (continueWithUsernameAndPasswordImpl [] [] True engine0) = [CM CM_clickDisconnect]
   \<and> calls (continueWithPasswordImpl [] True engine0) = [CM CM_clickDisconnect]
   \<and> calls (continueWithPrivKeyPasswordImpl [] True engine0) = [CM CM_clickDisconnect]
   \<and> calls (continueWithUsernameAndPasswordImpl ''bob'' ''pw'' True engine0) =
       [Cred (setAuthCredentials ''my.ovpn'' ''bob'' ''pw''), CM (CM_continueWithUsernameAndPassword ''bob'' ''pw'' False)]
   \<and> calls (continueWithPasswordImpl ''pw'' False engine0) = [CM (CM_continueWithPassword ''pw'' False)]
   \<and> calls (continueWithPrivKeyPasswordImpl ''pw'' True engine0) =
       [Cred (setPrivKeyPassword ''my.ovpn'' ''pw''), CM (CM_continueWithPrivKeyPassword ''pw'' False)]"
  using C8_continueWith_empty_credential_disconnects [of "[]" "[]" True engine0]
    C8_continueWith_empty_credential_disconnects [of "''bob''" "''pw''" True engine0]
    C8_continueWith_empty_credential_disconnects [of "[]" "''pw''" False engine0]
  by (simp add: ask_def engine0_def env0_def)

text \<open>C10: emergencyConnectClick and emergencyDisconnectClick, called before the Engine
  is initialized, only set the emergency connect-state controller to Disconnected with
  reason DISCONNECTED_ITSELF and no connect error and emit emergencyDisconnected: no
  method is posted to the queue and the emergency controller is not called.\<close>

theorem C10_emergency_click_uninitialized:
  "\<not> bInitialized s \<Longrightarrow>
     emergencyConnectClick s =
       s\<lparr>calls := calls s @ [ECSC (setDisconnectedState DISCONNECTED_ITSELF NO_CONNECT_ERROR),
                               Emit emergencyDisconnected]\<rparr>
   \<and> emergencyDisconnectClick s =
       s\<lparr>calls := calls s @ [ECSC (setDisconnectedState DISCONNECTED_ITSELF NO_CONNECT_ERROR),
                               Emit emergencyDisconnected]\<rparr>"
  by (simp add: emergencyConnectClick_def emergencyDisconnectClick_def do_call_def)

theorem C10_emergency_click_uninitialized_witness:
  "\<not> bInitialized (engine0\<lparr>bInitialized := False\<rparr>)
   \<and> calls (emergencyConnectClick (engine0\<lparr>bInitialized := False\<rparr>)) =
       [ECSC (setDisconnectedState DISCONNECTED_ITSELF NO_CONNECT_ERROR), Emit emergencyDisconnected]
   \<and> calls (emergencyDisconnectClick (engine0\<lparr>bInitialized := False\<rparr>)) =
       [ECSC (setDisconnectedState DISCONNECTED_ITSELF NO_CONNECT_ERROR), Emit emergencyDisconnected]"
  using C10_emergency_click_uninitialized [of "engine0\<lparr>bInitialized := False\<rparr>"]
  by (simp add: engine0_def)

section \<open>Composing runs\<close>

lemma run_iff: "run P s s' \<longleftrightarrow> (\<exists>xs. calls s' = calls s @ xs \<and> list_all P xs) \<and> frame s' = frame s"
  by (auto simp: run_def new_calls_def)

lemma frame_simps [simp]:
  "frame (do_call c m) = frame m"
  "frame (m\<lparr>calls := xs\<rparr>) = frame m"
  "frame (m\<lparr>locationName := a\<rparr>) = frame m"
  "frame (m\<lparr>firewallExceptions := b\<rparr>) = frame m"
  "frame (m\<lparr>prevNetworkInterface := c'\<rparr>) = frame m"
  "frame (m\<lparr>bPrevNetworkInterfaceInitialized := d\<rparr>) = frame m"
  "frame (m\<lparr>serverCredentialsFetched_slots := f\<rparr>) = frame m"
  by (simp_all add: frame_def do_call_def)

lemma run_frame:
  assumes "run P s m"
  shows "env m = env s" "bInitialized m = bInitialized s" "helper m = helper s"
    "isBlockConnect m = isBlockConnect s"
    "isNeedReconnectAfterRequestAuth m = isNeedReconnectAfterRequestAuth s"
    "isIgnoreNoApiConnectivity m = isIgnoreNoApiConnectivity s"
    "overrideUpdateChannelWithInternal m = overrideUpdateChannelWithInternal s"
    "apiResourcesManager m = apiResourcesManager s"
    "locationId m = locationId s" "connectionSettingsOverride m = connectionSettingsOverride s"
    "engineSettings m = engineSettings s" "packetSize m = packetSize s"
    "lastConnectingProtocol m = lastConnectingProtocol s" "senderSource m = senderSource s"
proof -
  from assms have "frame m = frame s" by (simp add: run_def)
  then show "env m = env s" "bInitialized m = bInitialized s" "helper m = helper s"
    "isBlockConnect m = isBlockConnect s"
    "isNeedReconnectAfterRequestAuth m = isNeedReconnectAfterRequestAuth s"
    "isIgnoreNoApiConnectivity m = isIgnoreNoApiConnectivity s"
    "overrideUpdateChannelWithInternal m = overrideUpdateChannelWithInternal s"
    "apiResourcesManager m = apiResourcesManager s"
    "locationId m = locationId s" "connectionSettingsOverride m = connectionSettingsOverride s"
    "engineSettings m = engineSettings s" "packetSize m = packetSize s"
    "lastConnectingProtocol m = lastConnectingProtocol s" "senderSource m = senderSource s"
    unfolding frame_def by blast+
qed

lemma run_calls: "run P s m \<Longrightarrow> calls m = calls s @ new_calls s m"
  and run_all: "run P s m \<Longrightarrow> list_all P (new_calls s m)"
  by (simp_all add: run_def)

lemma run_refl: "run P s s"
  by (simp add: run_iff)

lemma run_call: "run P s m \<Longrightarrow> P c \<Longrightarrow> run P s (do_call c m)"
  unfolding run_iff by auto

lemma run_upd:
  "run P s m \<Longrightarrow> run P s (m\<lparr>locationName := a\<rparr>)"
  "run P s m \<Longrightarrow> run P s (m\<lparr>firewallExceptions := b\<rparr>)"
  "run P s m \<Longrightarrow> run P s (m\<lparr>prevNetworkInterface := c\<rparr>)"
  "run P s m \<Longrightarrow> run P s (m\<lparr>bPrevNetworkInterfaceInitialized := d\<rparr>)"
  "run P s m \<Longrightarrow> run P s (m\<lparr>serverCredentialsFetched_slots := f\<rparr>)"
  unfolding run_iff by simp_all

lemma run_upd_arm: "run P s m \<Longrightarrow> apiResourcesManager s \<Longrightarrow> run P s (m\<lparr>apiResourcesManager := True\<rparr>)"
  unfolding run_iff by (auto simp: frame_def)

lemma run_if: "(c \<Longrightarrow> run P s a) \<Longrightarrow> (\<not> c \<Longrightarrow> run P s b) \<Longrightarrow> run P s (if c then a else b)"
  by simp

lemma run_Let: "run P s m \<Longrightarrow> (\<And>m'. run P s m' \<Longrightarrow> run P s (g m')) \<Longrightarrow> run P s (Let m g)"
  by simp

lemma run_Let_pair:
  "run P s (snd p) \<Longrightarrow> (\<And>x m'. run P s m' \<Longrightarrow> run P s (g x m')) \<Longrightarrow> run P s (Let p (case_prod g))"
  by (simp add: case_prod_beta)

lemma run_platform:
  "(os (env m) = Q_OS_WIN \<Longrightarrow> run P s a) \<Longrightarrow> (os (env m) = Q_OS_MAC \<Longrightarrow> run P s b) \<Longrightarrow> (os (env m) = Q_OS_LINUX \<Longrightarrow> run P s c) \<Longrightarrow>
   run P s (case os (env m) of Q_OS_WIN \<Rightarrow> a | Q_OS_MAC \<Rightarrow> b | Q_OS_LINUX \<Rightarrow> c)"
  by (simp split: platform.split)

lemma run_trans: "run P s m \<Longrightarrow> run P m m' \<Longrightarrow> run P s m'"
  unfolding run_iff by auto

lemma run_weaken: "run P s m \<Longrightarrow> (\<And>c. P c \<Longrightarrow> Q c) \<Longrightarrow> run Q s m"
  unfolding run_iff by (auto simp: list_all_iff)

lemma run_then: "run Q m (f m) \<Longrightarrow> run P s m \<Longrightarrow> (\<And>c. Q c \<Longrightarrow> P c) \<Longrightarrow> run P s (f m)"
  by (blast intro: run_trans run_weaken)

lemma run_Let_val:
  "run P s (g1 (v1::string)) \<Longrightarrow> run P s (Let v1 g1)"
  "run P s (g2 (v2::bool)) \<Longrightarrow> run P s (Let v2 g2)"
  "run P s (g3 (v3::ProxySettings)) \<Longrightarrow> run P s (Let v3 g3)"
  "run P s (g4 (v4::NetworkInterface)) \<Longrightarrow> run P s (Let v4 g4)"
  "run P s (g5 (v5::UPDATE_CHANNEL)) \<Longrightarrow> run P s (Let v5 g5)"
  "run P s (g6 (v6::c_int)) \<Longrightarrow> run P s (Let v6 g6)"
  by simp_all

lemmas run_rules = run_refl run_call run_upd run_if run_Let run_platform run_Let_val

lemma updateFirewallSettings_aux: "run aux_call s (updateFirewallSettings s)"
  unfolding updateFirewallSettings_def by (intro run_rules; simp)

lemma stopFetchingServerCredentials_aux: "run aux_call s (stopFetchingServerCredentials s)"
  unfolding stopFetchingServerCredentials_def by (intro run_rules; simp)

lemma updateServerLocations_aux: "run aux_call s (updateServerLocations s)"
  unfolding updateServerLocations_def checkForceDisconnectNode_def by (intro run_rules; simp)

lemma doCheckUpdate_aux: "run aux_call s (doCheckUpdate s)"
  unfolding doCheckUpdate_def by (intro run_rules; simp)

lemma updateCurrentNetworkInterfaceImpl_aux: "run aux_call s (updateCurrentNetworkInterfaceImpl s)"
  unfolding updateCurrentNetworkInterfaceImpl_def by (intro run_rules; simp)

lemma enableDohSettings_aux: "run aux_call s (enableDohSettings s)"
  unfolding enableDohSettings_def by (intro run_rules; simp)

lemma addCustomRemoteIpToFirewallIfNeed_aux: "run aux_call s (addCustomRemoteIpToFirewallIfNeed s)"
  unfolding addCustomRemoteIpToFirewallIfNeed_def setCustomRemoteIp_def Let_def
  by (simp add: case_prod_beta; intro conjI impI run_rules run_then [OF updateFirewallSettings_aux]; simp)

lemmas run_aux =
  run_then [OF updateFirewallSettings_aux] run_then [OF stopFetchingServerCredentials_aux]
  run_then [OF updateServerLocations_aux] run_then [OF doCheckUpdate_aux]
  run_then [OF updateCurrentNetworkInterfaceImpl_aux] run_then [OF enableDohSettings_aux]
  run_then [OF addCustomRemoteIpToFirewallIfNeed_aux]

lemma loginImpl_run: "apiResourcesManager s \<Longrightarrow> run aux_call s (loginImpl a u p c s)"
  unfolding loginImpl_def by (intro run_rules run_aux run_upd_arm; simp)

lemma loginImpl_then:
  "run P s m \<Longrightarrow> apiResourcesManager m \<Longrightarrow> (\<And>c. aux_call c \<Longrightarrow> P c) \<Longrightarrow> run P s (loginImpl a u p c m)"
  by (blast intro: run_then loginImpl_run)

lemma doDisconnectRestoreStuff_aux: "run aux_call s (doDisconnectRestoreStuff s)"
  unfolding doDisconnectRestoreStuff_def setConnectingIp_def setDNSServers_def
  by (intro run_rules run_aux loginImpl_then; simp)

section \<open>The connected handler as a run\<close>

lemma aux_call_not:
  "aux_call c \<Longrightarrow> c \<noteq> Emit (firewallStateChanged b)"
  "aux_call c \<Longrightarrow> c \<noteq> Helper (changeMtu a v)"
  "aux_call c \<Longrightarrow> c \<noteq> CM x"
  "aux_call c \<Longrightarrow> c \<noteq> CSC y"
  by auto

lemma mtu_block:
  "onConnectionManagerConnected_mtu adapter m =
    (if (isIkev2Protocol (ask cm_currentProtocol m) \<or> isWireGuardProtocol (ask cm_currentProtocol m))
        \<and> \<not> ps_isAutomatic (packetSize m)
        \<and> 0 <s ps_mtu (packetSize m) - protocolOverhead (env m) (ask cm_currentProtocol m)
     then do_call (Helper (changeMtu adapter
            (ps_mtu (packetSize m) - protocolOverhead (env m) (ask cm_currentProtocol m)))) m
     else m)"
  by (simp add: onConnectionManagerConnected_mtu_def protocolOverhead_def Let_def case_prod_beta)

lemma run_mtu:
  assumes "run P s m"
    and "\<And>p. (p = IKEV2 \<or> p = WIREGUARD) \<Longrightarrow> \<not> ps_isAutomatic (packetSize m) \<Longrightarrow>
           0 <s ps_mtu (packetSize m) - protocolOverhead (env m) p \<Longrightarrow>
           P (Helper (changeMtu adapter (ps_mtu (packetSize m) - protocolOverhead (env m) p)))"
  shows "run P s (onConnectionManagerConnected_mtu adapter m)"
  unfolding mtu_block using assms
  by (auto intro!: run_call simp: isIkev2Protocol_def isWireGuardProtocol_def)

lemma run_connected_firewall:
  assumes "run P s m"
    and "\<And>ip ips l c. P (FW (FW_firewallOn ip ips l c))" and "P (FW FW_firewallOff)"
    and "P (Emit (firewallStateChanged False))"
    and "fw_mode (firewallSettings (engineSettings m)) = FIREWALL_MODE_AUTOMATIC \<Longrightarrow>
         fw_when (firewallSettings (engineSettings m)) = FIREWALL_WHEN_AFTER_CONNECTION \<Longrightarrow>
         ask cm_isAllowFirewallAfterConnection m \<Longrightarrow> \<not> ask fw_firewallActualState m \<Longrightarrow>
         P (Emit (firewallStateChanged True))"
  shows "run P s (snd (onConnectionManagerConnected_firewall m))"
  unfolding onConnectionManagerConnected_firewall_def using assms
  by (auto simp: Let_def intro!: run_call)

lemma onConnectionManagerConnected_run:
  assumes other: "\<And>c. c \<noteq> Emit (firewallStateChanged True) \<Longrightarrow> (\<forall>a v. c \<noteq> Helper (changeMtu a v)) \<Longrightarrow> P c"
    and fw: "\<And>m. run P s m \<Longrightarrow>
         fw_mode (firewallSettings (engineSettings m)) = FIREWALL_MODE_AUTOMATIC \<Longrightarrow>
         fw_when (firewallSettings (engineSettings m)) = FIREWALL_WHEN_AFTER_CONNECTION \<Longrightarrow>
         ask cm_isAllowFirewallAfterConnection m \<Longrightarrow> \<not> ask fw_firewallActualState m \<Longrightarrow>
         P (Emit (firewallStateChanged True))"
    and mtu: "\<And>m p. run P s m \<Longrightarrow> (p = IKEV2 \<or> p = WIREGUARD) \<Longrightarrow> \<not> ps_isAutomatic (packetSize m) \<Longrightarrow>
           0 <s ps_mtu (packetSize m) - protocolOverhead (env m) p \<Longrightarrow>
           P (Helper (changeMtu (adapterName (ask cm_getVpnAdapterInfo s))
              (ps_mtu (packetSize m) - protocolOverhead (env m) p)))"
  shows "run P s (onConnectionManagerConnected s)"
  unfolding onConnectionManagerConnected_def
  by (intro run_rules run_Let_pair run_connected_firewall run_mtu loginImpl_then;
      (simp add: other aux_call_not)?; (erule (4) fw | erule (3) mtu)?)

section \<open>The connect sequence: blocked connections and location errors\<close>

text \<open>None of the functions of the connect sequence reads \<open>isBlockConnect\<close> except
  the test in connectClickImpl itself.\<close>

lemma isBlockConnect_out:
  "do_call c (s\<lparr>isBlockConnect := b\<rparr>) = (do_call c s)\<lparr>isBlockConnect := b\<rparr>"
  "ask q (s\<lparr>isBlockConnect := b\<rparr>) = ask q s"
  "(s\<lparr>isBlockConnect := b\<rparr>)\<lparr>locationName := x1\<rparr> = (s\<lparr>locationName := x1\<rparr>)\<lparr>isBlockConnect := b\<rparr>"
  "(s\<lparr>isBlockConnect := b\<rparr>)\<lparr>firewallExceptions := x2\<rparr> = (s\<lparr>firewallExceptions := x2\<rparr>)\<lparr>isBlockConnect := b\<rparr>"
  "(s\<lparr>isBlockConnect := b\<rparr>)\<lparr>serverCredentialsFetched_slots := x3\<rparr> = (s\<lparr>serverCredentialsFetched_slots := x3\<rparr>)\<lparr>isBlockConnect := b\<rparr>"
  "(s\<lparr>isBlockConnect := b\<rparr>)\<lparr>locationId := x4\<rparr> = (s\<lparr>locationId := x4\<rparr>)\<lparr>isBlockConnect := b\<rparr>"
  "(s\<lparr>isBlockConnect := b\<rparr>)\<lparr>connectionSettingsOverride := x5\<rparr> = (s\<lparr>connectionSettingsOverride := x5\<rparr>)\<lparr>isBlockConnect := b\<rparr>"
  by (simp_all add: do_call_def ask_def)

lemma updateFirewallSettings_isBlockConnect:
  "updateFirewallSettings (s\<lparr>isBlockConnect := b\<rparr>) = (updateFirewallSettings s)\<lparr>isBlockConnect := b\<rparr>"
  by (simp add: updateFirewallSettings_def isBlockConnect_out)

lemma addCustom_isBlockConnect:
  "addCustomRemoteIpToFirewallIfNeed (s\<lparr>isBlockConnect := b\<rparr>) = (addCustomRemoteIpToFirewallIfNeed s)\<lparr>isBlockConnect := b\<rparr>"
  by (simp add: addCustomRemoteIpToFirewallIfNeed_def Let_def case_prod_beta setCustomRemoteIp_def
      isBlockConnect_out updateFirewallSettings_isBlockConnect)

lemma stopFetching_isBlockConnect:
  "stopFetchingServerCredentials (s\<lparr>isBlockConnect := b\<rparr>) = (stopFetchingServerCredentials s)\<lparr>isBlockConnect := b\<rparr>"
  by (simp add: stopFetchingServerCredentials_def isBlockConnect_out)

lemma firewall_isBlockConnect:
  "connectClickImpl_firewall (s\<lparr>isBlockConnect := b\<rparr>) = (connectClickImpl_firewall s)\<lparr>isBlockConnect := b\<rparr>"
  by (simp add: connectClickImpl_firewall_def Let_def isBlockConnect_out)

lemma doConnect_isBlockConnect:
  "doConnect e (s\<lparr>isBlockConnect := b\<rparr>) = (doConnect e s)\<lparr>isBlockConnect := b\<rparr>"
  by (simp add: doConnect_def Let_def isBlockConnect_out split: option.split)

lemma setProperty_isBlockConnect:
  "setProperty_senderSource v (s\<lparr>isBlockConnect := b\<rparr>) = (setProperty_senderSource v s)\<lparr>isBlockConnect := b\<rparr>"
  by (simp add: setProperty_senderSource_def do_call_def)

lemmas isBlockConnect_commute = isBlockConnect_out updateFirewallSettings_isBlockConnect
  addCustom_isBlockConnect stopFetching_isBlockConnect firewall_isBlockConnect
  doConnect_isBlockConnect setProperty_isBlockConnect

text \<open>C3: with the ConnectionManager disconnected, the block-connect flag set and a
  location that is not a custom config, connectClickImpl stores its arguments and makes
  exactly two calls: setDisconnectedState(DISCONNECTED_WITH_ERROR, CONNECTION_BLOCKED) and
  one external-IP refresh; no ConnectionManager, firewall or helper call is made. For a
  custom-config location the flag changes nothing: the run with the flag set is the run
  without it.\<close>

theorem C3_connect_blocked:
  "(ask cm_isDisconnected s \<and> isBlockConnect s \<and> \<not> isCustomConfigsLocation loc \<longrightarrow>
     connectClickImpl loc cs s =
       s\<lparr>locationId := loc, connectionSettingsOverride := cs,
         calls := calls s @ [CSC (setDisconnectedState DISCONNECTED_WITH_ERROR CONNECTION_BLOCKED),
                             Misc (MyIp_getIP 1)]\<rparr>)
   \<and> (isCustomConfigsLocation loc \<longrightarrow>
     connectClickImpl loc cs (s\<lparr>isBlockConnect := b\<rparr>) =
       (connectClickImpl loc cs s)\<lparr>isBlockConnect := b\<rparr>)"
proof (intro conjI impI)
  assume "ask cm_isDisconnected s \<and> isBlockConnect s \<and> \<not> isCustomConfigsLocation loc"
  then show "connectClickImpl loc cs s =
       s\<lparr>locationId := loc, connectionSettingsOverride := cs,
         calls := calls s @ [CSC (setDisconnectedState DISCONNECTED_WITH_ERROR CONNECTION_BLOCKED),
                             Misc (MyIp_getIP 1)]\<rparr>"
    by (simp add: connectClickImpl_def Let_def do_call_def ask_def)
next
  assume "isCustomConfigsLocation loc"
  then show "connectClickImpl loc cs (s\<lparr>isBlockConnect := b\<rparr>) =
       (connectClickImpl loc cs s)\<lparr>isBlockConnect := b\<rparr>"
    by (simp add: connectClickImpl_def Let_def isBlockConnect_commute split: platform.split)
qed

theorem C3_connect_blocked_witness:
  "ask cm_isDisconnected (engine0\<lparr>isBlockConnect := True\<rparr>)
   \<and> \<not> isCustomConfigsLocation toronto
   \<and> calls (connectClickImpl toronto noOverride (engine0\<lparr>isBlockConnect := True\<rparr>)) =
       [CSC (setDisconnectedState DISCONNECTED_WITH_ERROR CONNECTION_BLOCKED), Misc (MyIp_getIP 1)]
   \<and> isCustomConfigsLocation myConfig
   \<and> connectClickImpl myConfig noOverride (engine0\<lparr>isBlockConnect := True\<rparr>) =
       (connectClickImpl myConfig noOverride engine0)\<lparr>isBlockConnect := True\<rparr>"
  using C3_connect_blocked [of "engine0\<lparr>isBlockConnect := True\<rparr>" toronto noOverride True]
    C3_connect_blocked [of engine0 myConfig noOverride True]
  by (simp add: ask_def engine0_def env0_def isCustomConfigsLocation_def toronto_def myConfig_def)



section \<open>Network change\<close>

text \<open>C9: on a network change with a non-empty network name, the Engine hands the
  per-network connection settings to the ConnectionManager (updateConnectionSettings),
  sends the default-adapter snapshot to the helper only if the helper exists and the
  connect state is Disconnected, and emits networkChanged; nothing else is called (no
  connect or disconnect request, no connect-state call) and no member variable changes.\<close>

theorem C9_onNetworkChange:
  "networkOrSsid networkInterface \<noteq> [] \<Longrightarrow>
   (let settings = connectionSettingsForNetworkInterface (engineSettings s) (networkOrSsid networkInterface);
        s1 = do_call (CM (CM_updateConnectionSettings settings
               (if apiResourcesManager s then ask arm_portMap s else [])
               (ask getCurrentProxySettings s))) s;
        s2 = (if helper s \<and> ask csc_currentState s1 = CONNECT_STATE_DISCONNECTED then
                do_call (Helper (sendConnectStatus False (isTerminateSockets (engineSettings s))
                  (isAllowLanTraffic (engineSettings s)) (ask detectAndCreateDefaultAdapterInfo s1)
                  emptyAdapterInfo [] UNINITIALIZED)) s1
              else s1)
    in onNetworkChange networkInterface s = do_call (Emit (networkChanged networkInterface)) s2
       \<and> (\<forall>c \<in> set (new_calls s (onNetworkChange networkInterface s)).
            (\<forall>x. c \<noteq> CSC x) \<and> \<not> is_connect_or_disconnect c))"
  by (simp add: onNetworkChange_def Let_def new_calls_def is_connect_or_disconnect_def)

theorem C9_onNetworkChange_witness:
  "networkOrSsid \<lparr>networkOrSsid = ''cafe'', interfaceName = ''wlan0''\<rparr> \<noteq> []
   \<and> calls (onNetworkChange \<lparr>networkOrSsid = ''cafe'', interfaceName = ''wlan0''\<rparr>
        (engine0\<lparr>env := env0\<lparr>csc_currentState := (\<lambda>tr. CONNECT_STATE_CONNECTED)\<rparr>\<rparr>)) =
      [CM (CM_updateConnectionSettings automaticSettings [443] \<lparr>curlAddress = [], proxyUsername = [], proxyPassword = []\<rparr>),
       Emit (networkChanged \<lparr>networkOrSsid = ''cafe'', interfaceName = ''wlan0''\<rparr>)]"
  using C9_onNetworkChange [of "\<lparr>networkOrSsid = ''cafe'', interfaceName = ''wlan0''\<rparr>"
      "engine0\<lparr>env := env0\<lparr>csc_currentState := (\<lambda>tr. CONNECT_STATE_CONNECTED)\<rparr>\<rparr>"]
  by (simp add: Let_def ask_def engine0_def env0_def)

section \<open>MTU of the VPN adapter\<close>





section \<open>The automatic firewall: before or after the connection\<close>

lemma run_Let_eq: "(\<And>m'. m' = m \<Longrightarrow> run P s (g m')) \<Longrightarrow> run P s (Let m g)"
  by simp

lemma run_option:
  "(x = None \<Longrightarrow> run P s a) \<Longrightarrow> (\<And>v. x = Some v \<Longrightarrow> run P s (f v)) \<Longrightarrow>
   run P s (case x of None \<Rightarrow> a | Some v \<Rightarrow> f v)"
  by (simp split: option.split)

lemma run_Let_settings: "run P s (g (v::ConnectionSettings)) \<Longrightarrow> run P s (Let v g)"
  by simp

lemma doConnect_then:
  assumes "run P s m" and "\<And>x. P (CSC x)" and "\<And>x. P (Misc x)" and "\<And>x. P (CM x)"
  shows "run P s (doConnect b m)"
  unfolding doConnect_def using assms
  by (intro run_rules run_option run_Let_settings; simp)

lemma run_connect_firewall:
  assumes "run P s m"
    and "\<And>ip ips l c. P (FW (FW_firewallOn ip ips l c))"
    and "fw_mode (firewallSettings (engineSettings m)) = FIREWALL_MODE_AUTOMATIC \<Longrightarrow>
         fw_when (firewallSettings (engineSettings m)) = FIREWALL_WHEN_BEFORE_CONNECTION \<Longrightarrow>
         \<not> ask fw_firewallActualState m \<Longrightarrow> P (Emit (firewallStateChanged True))"
  shows "run P s (connectClickImpl_firewall m)"
  unfolding connectClickImpl_firewall_def using assms
  by (auto simp: Let_def intro!: run_call)

lemma connectClickImpl_run:
  assumes disc: "ask cm_isDisconnected s"
    and other: "\<And>c. c \<noteq> Emit (firewallStateChanged True) \<Longrightarrow> P c"
    and fw: "\<And>m. run P (s\<lparr>locationId := loc, connectionSettingsOverride := cs\<rparr>) m \<Longrightarrow>
         fw_mode (firewallSettings (engineSettings m)) = FIREWALL_MODE_AUTOMATIC \<Longrightarrow>
         fw_when (firewallSettings (engineSettings m)) = FIREWALL_WHEN_BEFORE_CONNECTION \<Longrightarrow>
         \<not> ask fw_firewallActualState m \<Longrightarrow> P (Emit (firewallStateChanged True))"
  shows "run P (s\<lparr>locationId := loc, connectionSettingsOverride := cs\<rparr>) (connectClickImpl loc cs s)"
proof -
  have same: "ask q (s\<lparr>locationId := loc, connectionSettingsOverride := cs\<rparr>) = ask q s" for q :: "environment \<Rightarrow> call list \<Rightarrow> bool"
    by (simp add: ask_def)
  show ?thesis
    unfolding connectClickImpl_def
    apply (rule run_Let_eq)
    by (intro run_rules run_aux doConnect_then run_connect_firewall;
        (simp add: other aux_call_not same disc run_refl)?; (erule (3) fw)?)
qed


lemma new_calls_same: "calls s0 = calls s \<Longrightarrow> new_calls s0 m = new_calls s m"
  by (simp add: new_calls_def)

lemma connectClickImpl_proceed:
  "ask cm_isDisconnected s \<Longrightarrow> \<not> (isBlockConnect s \<and> \<not> isCustomConfigsLocation loc) \<Longrightarrow>
   connectClickImpl loc cs s =
     doConnect True (connectClickImpl_prepare (s\<lparr>locationId := loc, connectionSettingsOverride := cs\<rparr>))"
  by (auto simp: connectClickImpl_def connectClickImpl_prepare_def Let_def ask_def)

lemma enablings_append:
  "enablings e pre (xs @ ys) = enablings e pre xs @ enablings e (pre @ xs) ys"
  by (induction xs arbitrary: pre) simp_all

lemma enablings_none: "list_all (\<lambda>c. \<not> is_firewallOn c) ys \<Longrightarrow> enablings e pre ys = []"
  by (induction ys arbitrary: pre) simp_all

lemma no_enabling_iff:
  "no_enabling s s' \<longleftrightarrow>
    (\<exists>xs. calls s' = calls s @ xs \<and> enablings (env s) (calls s) xs = []) \<and> frame s' = frame s"
  by (auto simp: no_enabling_def firewall_enabled_by_def new_calls_def)

lemma run_top: "run P s m \<Longrightarrow> run (\<lambda>c. True) s m"
  by (auto simp: run_iff list_all_iff)

lemma no_enabling_run: "no_enabling s m \<Longrightarrow> run (\<lambda>c. True) s m"
  by (auto simp: no_enabling_iff run_iff list_all_iff)

lemma no_enabling_none: "no_enabling s m \<Longrightarrow> firewall_enabled_by s m = []"
  by (simp add: no_enabling_def)

lemma firewall_enabled_by_trans:
  assumes "run P s m" and "run Q m r"
  shows "firewall_enabled_by s r = firewall_enabled_by s m @ firewall_enabled_by m r"
proof -
  from assms(1) obtain xs where xs: "calls m = calls s @ xs" and fr: "frame m = frame s"
    by (auto simp: run_iff)
  from assms(2) obtain ys where ys: "calls r = calls m @ ys"
    by (auto simp: run_iff)
  from fr have e: "env m = env s"
    by (simp add: frame_def)
  show ?thesis
    using xs ys e by (simp add: firewall_enabled_by_def new_calls_def enablings_append)
qed

lemma quiet_none: "run (\<lambda>c. \<not> is_firewallOn c) s m \<Longrightarrow> firewall_enabled_by s m = []"
  by (auto simp: run_iff firewall_enabled_by_def new_calls_def enablings_none)

lemma ne_refl: "no_enabling s s"
  by (simp add: no_enabling_iff)

lemma ne_call:
  assumes "no_enabling s m" and "is_firewallOn c \<Longrightarrow> ask fw_firewallActualState m"
  shows "no_enabling s (do_call c m)"
proof -
  from assms(1) obtain xs where xs: "calls m = calls s @ xs"
      "enablings (env s) (calls s) xs = []" and fr: "frame m = frame s"
    by (auto simp: no_enabling_iff)
  from fr have e: "env m = env s"
    by (simp add: frame_def)
  have "enablings (env s) (calls s) (xs @ [c]) = []"
    using xs assms(2) e by (auto simp: enablings_append ask_def)
  with xs(1) fr show ?thesis
    unfolding no_enabling_iff by (intro conjI exI [of _ "xs @ [c]"]) simp_all
qed

lemma ne_upd:
  "no_enabling s m \<Longrightarrow> no_enabling s (m\<lparr>locationName := a\<rparr>)"
  "no_enabling s m \<Longrightarrow> no_enabling s (m\<lparr>firewallExceptions := b\<rparr>)"
  "no_enabling s m \<Longrightarrow> no_enabling s (m\<lparr>prevNetworkInterface := c\<rparr>)"
  "no_enabling s m \<Longrightarrow> no_enabling s (m\<lparr>bPrevNetworkInterfaceInitialized := d\<rparr>)"
  "no_enabling s m \<Longrightarrow> no_enabling s (m\<lparr>serverCredentialsFetched_slots := f\<rparr>)"
  unfolding no_enabling_iff by simp_all

lemma ne_if: "(c \<Longrightarrow> no_enabling s a) \<Longrightarrow> (\<not> c \<Longrightarrow> no_enabling s b) \<Longrightarrow> no_enabling s (if c then a else b)"
  by simp

lemma ne_Let: "no_enabling s m \<Longrightarrow> (\<And>m'. no_enabling s m' \<Longrightarrow> no_enabling s (g m')) \<Longrightarrow> no_enabling s (Let m g)"
  by simp

lemma ne_platform:
  "(os (env m) = Q_OS_WIN \<Longrightarrow> no_enabling s a) \<Longrightarrow> (os (env m) = Q_OS_MAC \<Longrightarrow> no_enabling s b) \<Longrightarrow>
   (os (env m) = Q_OS_LINUX \<Longrightarrow> no_enabling s c) \<Longrightarrow>
   no_enabling s (case os (env m) of Q_OS_WIN \<Rightarrow> a | Q_OS_MAC \<Rightarrow> b | Q_OS_LINUX \<Rightarrow> c)"
  by (simp split: platform.split)

lemma ne_Let_val:
  "no_enabling s (g1 (v1::string)) \<Longrightarrow> no_enabling s (Let v1 g1)"
  "no_enabling s (g2 (v2::bool)) \<Longrightarrow> no_enabling s (Let v2 g2)"
  by simp_all

lemma ne_Let_step: "no_enabling s (g m) \<Longrightarrow> no_enabling s (Let (m::engine) g)"
  by simp

lemma ne_Let_pair_step: "no_enabling s (g (fst p) (snd p)) \<Longrightarrow> no_enabling s (Let p (case_prod g))"
  by (simp add: case_prod_beta)

lemma ne_then:
  assumes "run (\<lambda>c. \<not> is_firewallOn c) m m'" and "no_enabling s m"
  shows "no_enabling s m'"
proof -
  have "firewall_enabled_by s m' = firewall_enabled_by s m @ firewall_enabled_by m m'"
    by (rule firewall_enabled_by_trans [OF no_enabling_run [OF assms(2)] assms(1)])
  then have "firewall_enabled_by s m' = []"
    by (simp add: quiet_none [OF assms(1)] no_enabling_none [OF assms(2)])
  moreover have "run (\<lambda>c. True) s m'"
    by (rule run_trans [OF no_enabling_run [OF assms(2)] run_top [OF assms(1)]])
  ultimately show ?thesis
    by (simp add: no_enabling_def run_def)
qed

lemmas ne_rules = ne_refl ne_call ne_upd ne_if ne_Let ne_platform ne_Let_val

lemma updateFirewallSettings_ne: "no_enabling s m \<Longrightarrow> no_enabling s (updateFirewallSettings m)"
  unfolding updateFirewallSettings_def by (intro ne_rules; simp)

lemma addCustomRemoteIpToFirewallIfNeed_ne:
  "no_enabling s m \<Longrightarrow> no_enabling s (addCustomRemoteIpToFirewallIfNeed m)"
  unfolding addCustomRemoteIpToFirewallIfNeed_def setCustomRemoteIp_def Let_def
  by (simp add: case_prod_beta; intro conjI impI ne_rules updateFirewallSettings_ne; simp)

lemma stopFetchingServerCredentials_quiet:
  "run (\<lambda>c. \<not> is_firewallOn c) s (stopFetchingServerCredentials s)"
  unfolding stopFetchingServerCredentials_def by (intro run_rules; simp)

lemma updateServerLocations_quiet: "run (\<lambda>c. \<not> is_firewallOn c) s (updateServerLocations s)"
  unfolding updateServerLocations_def checkForceDisconnectNode_def by (intro run_rules; simp)

lemma doCheckUpdate_quiet: "run (\<lambda>c. \<not> is_firewallOn c) s (doCheckUpdate s)"
  unfolding doCheckUpdate_def by (intro run_rules; simp)

lemma updateCurrentNetworkInterfaceImpl_quiet:
  "run (\<lambda>c. \<not> is_firewallOn c) s (updateCurrentNetworkInterfaceImpl s)"
  unfolding updateCurrentNetworkInterfaceImpl_def by (intro run_rules; simp)

lemma loginImpl_quiet:
  "apiResourcesManager s \<Longrightarrow> run (\<lambda>c. \<not> is_firewallOn c) s (loginImpl a u p c s)"
  unfolding loginImpl_def
  by (intro run_rules run_upd_arm run_then [OF updateServerLocations_quiet]
      run_then [OF doCheckUpdate_quiet] run_then [OF updateCurrentNetworkInterfaceImpl_quiet]; simp)

lemma doConnect_quiet: "run (\<lambda>c. \<not> is_firewallOn c) s (doConnect b s)"
  by (rule doConnect_then) (simp_all add: run_refl)

lemma mtu_quiet: "run (\<lambda>c. \<not> is_firewallOn c) s (onConnectionManagerConnected_mtu a s)"
  by (rule run_mtu) (simp_all add: run_refl)

lemma connectClickImpl_before_firewall_ne: "no_enabling s (connectClickImpl_before_firewall s)"
  unfolding connectClickImpl_before_firewall_def
  by (intro ne_rules addCustomRemoteIpToFirewallIfNeed_ne ne_then [OF stopFetchingServerCredentials_quiet]; simp)

lemma connectClickImpl_prepare_eq:
  "connectClickImpl_prepare s = connectClickImpl_firewall (connectClickImpl_before_firewall s)"
  by (simp add: connectClickImpl_prepare_def connectClickImpl_before_firewall_def)

lemma onConnectionManagerConnected_begin_ne: "no_enabling s (onConnectionManagerConnected_begin s)"
  unfolding onConnectionManagerConnected_begin_def
  by (intro ne_rules; simp)

lemma onConnectionManagerConnected_after_firewall:
  "no_enabling (snd (onConnectionManagerConnected_firewall (onConnectionManagerConnected_begin s)))
     (onConnectionManagerConnected s)"
  unfolding onConnectionManagerConnected_def onConnectionManagerConnected_begin_def
  apply (rule ne_Let_val)
  apply (rule ne_Let_step)
  apply (rule ne_Let_pair_step)
  by (intro ne_rules ne_then [OF mtu_quiet] ne_then [OF loginImpl_quiet]; simp?)

lemma connectClickImpl_firewall_calls:
  "firewall_enabled_by m (connectClickImpl_firewall m) =
     (if fw_mode (firewallSettings (engineSettings m)) = FIREWALL_MODE_AUTOMATIC
         \<and> fw_when (firewallSettings (engineSettings m)) = FIREWALL_WHEN_BEFORE_CONNECTION
         \<and> \<not> ask fw_firewallActualState m
      then [FW (FW_firewallOn (fe_connectingIp (firewallExceptions m))
                  (getIPAddressesForFirewall (env m) (firewallExceptions m))
                  (isAllowLanTraffic (engineSettings m)) (isCustomConfigsLocation (locationId m)))]
      else [])"
  by (simp add: firewall_enabled_by_def connectClickImpl_firewall_def Let_def new_calls_def ask_def)

lemma onConnectionManagerConnected_firewall_calls:
  "firewall_enabled_by m (snd (onConnectionManagerConnected_firewall m)) =
     (if fw_mode (firewallSettings (engineSettings m)) = FIREWALL_MODE_AUTOMATIC
         \<and> fw_when (firewallSettings (engineSettings m)) = FIREWALL_WHEN_AFTER_CONNECTION
         \<and> ask cm_isAllowFirewallAfterConnection m
         \<and> \<not> ask fw_firewallActualState m
      then [FW (FW_firewallOn (ask cm_getLastConnectedIp m)
                  (getIPAddressesForFirewallForConnectedState (env m) (firewallExceptions m))
                  (isAllowLanTraffic (engineSettings m)) (isCustomConfigsLocation (locationId m)))]
      else [])"
  by (simp add: firewall_enabled_by_def onConnectionManagerConnected_firewall_def Let_def new_calls_def ask_def)

lemma connectClickImpl_enabled:
  "firewall_enabled_by s (connectClickImpl loc cs s) =
     (if ask cm_isDisconnected s \<and> \<not> (isBlockConnect s \<and> \<not> isCustomConfigsLocation loc)
      then firewall_enabled_by
             (connectClickImpl_before_firewall (s\<lparr>locationId := loc, connectionSettingsOverride := cs\<rparr>))
             (connectClickImpl_firewall
               (connectClickImpl_before_firewall (s\<lparr>locationId := loc, connectionSettingsOverride := cs\<rparr>)))
      else [])"
proof -
  define s0 where "s0 = s\<lparr>locationId := loc, connectionSettingsOverride := cs\<rparr>"
  define p where "p = connectClickImpl_before_firewall s0"
  have same: "firewall_enabled_by s r = firewall_enabled_by s0 r" for r
    by (simp add: firewall_enabled_by_def new_calls_def s0_def)
  show ?thesis
  proof (cases "ask cm_isDisconnected s")
    case False
    then have "new_calls s (connectClickImpl loc cs s) =
        [CM (CM_setProperty_senderSource (Some ''reconnect'')), CM CM_clickDisconnect]"
      by (simp add: connectClickImpl_def Let_def setProperty_senderSource_def new_calls_def ask_def)
    with False show ?thesis
      by (simp add: firewall_enabled_by_def)
  next
    case disc: True
    show ?thesis
    proof (cases "isBlockConnect s \<and> \<not> isCustomConfigsLocation loc")
      case True
      with disc have "new_calls s (connectClickImpl loc cs s) =
          [CSC (setDisconnectedState DISCONNECTED_WITH_ERROR CONNECTION_BLOCKED), Misc (MyIp_getIP 1)]"
        by (simp add: connectClickImpl_def Let_def new_calls_def ask_def)
      with True show ?thesis
        by (simp add: firewall_enabled_by_def)
    next
      case False
      have h: "connectClickImpl loc cs s = doConnect True (connectClickImpl_firewall p)"
        unfolding p_def s0_def connectClickImpl_prepare_eq [symmetric]
        using disc False by (intro connectClickImpl_proceed) simp_all
      have r1: "no_enabling s0 p"
        unfolding p_def by (rule connectClickImpl_before_firewall_ne)
      have r2: "run (\<lambda>c. True) p (connectClickImpl_firewall p)"
        by (rule run_connect_firewall) (simp_all add: run_refl)
      have r3: "run (\<lambda>c. \<not> is_firewallOn c) (connectClickImpl_firewall p) (doConnect True (connectClickImpl_firewall p))"
        by (rule doConnect_quiet)
      have "firewall_enabled_by s0 (doConnect True (connectClickImpl_firewall p)) =
          firewall_enabled_by s0 p @ firewall_enabled_by p (doConnect True (connectClickImpl_firewall p))"
        by (rule firewall_enabled_by_trans [OF no_enabling_run [OF r1] run_trans [OF r2 run_top [OF r3]]])
      also have "firewall_enabled_by p (doConnect True (connectClickImpl_firewall p)) =
          firewall_enabled_by p (connectClickImpl_firewall p)
          @ firewall_enabled_by (connectClickImpl_firewall p) (doConnect True (connectClickImpl_firewall p))"
        by (rule firewall_enabled_by_trans [OF r2 r3])
      finally have "firewall_enabled_by s0 (doConnect True (connectClickImpl_firewall p)) =
          firewall_enabled_by p (connectClickImpl_firewall p)"
        by (simp add: no_enabling_none [OF r1] quiet_none [OF r3])
      with disc False show ?thesis
        by (simp add: same h p_def s0_def)
    qed
  qed
qed

lemma onConnectionManagerConnected_enabled:
  "firewall_enabled_by s (onConnectionManagerConnected s) =
     firewall_enabled_by (onConnectionManagerConnected_begin s)
       (snd (onConnectionManagerConnected_firewall (onConnectionManagerConnected_begin s)))"
proof -
  define b where "b = onConnectionManagerConnected_begin s"
  define f where "f = snd (onConnectionManagerConnected_firewall b)"
  have r1: "no_enabling s b"
    unfolding b_def by (rule onConnectionManagerConnected_begin_ne)
  have r2: "run (\<lambda>c. True) b f"
    unfolding f_def by (rule run_connected_firewall) (simp_all add: run_refl)
  have r3: "no_enabling f (onConnectionManagerConnected s)"
    unfolding f_def b_def by (rule onConnectionManagerConnected_after_firewall)
  have "firewall_enabled_by s (onConnectionManagerConnected s) =
      firewall_enabled_by s b @ firewall_enabled_by b (onConnectionManagerConnected s)"
    by (rule firewall_enabled_by_trans [OF no_enabling_run [OF r1] run_trans [OF r2 no_enabling_run [OF r3]]])
  also have "firewall_enabled_by b (onConnectionManagerConnected s) =
      firewall_enabled_by b f @ firewall_enabled_by f (onConnectionManagerConnected s)"
    by (rule firewall_enabled_by_trans [OF r2 no_enabling_run [OF r3]])
  finally have "firewall_enabled_by s (onConnectionManagerConnected s) = firewall_enabled_by b f"
    by (simp add: no_enabling_none [OF r1] no_enabling_none [OF r3])
  then show ?thesis
    by (simp add: b_def f_def)
qed


text \<open>C2: an automatic firewall action fires when FirewallController::firewallOn is
  called while the controller reports the firewall off (\<open>firewall_enabled_by\<close> lists
  these calls of a run). The step of connectClickImpl makes such a call, followed by the
  signal firewallStateChanged(true), exactly when the mode is automatic, the timing is
  before-connection and the firewall is off; the step of onConnectionManagerConnected
  exactly when the mode is automatic, the timing is after-connection, the
  ConnectionManager allows the firewall after the connection and the firewall is off.
  These steps are the only places where the two handlers turn the firewall on: the calls
  by which connectClickImpl turns it on are those of its step, made when the
  ConnectionManager is disconnected and the connection is not blocked, and the calls by
  which onConnectionManagerConnected turns it on are those of its step; every other
  firewallOn of the two handlers is made with the firewall reported on. Both steps run
  under the firewall settings of the handler's start. So a connect sequence that turns
  the firewall on, or emits firewallStateChanged(true), ran with mode automatic and timing
  before-connection, a connected handler that does ran with mode automatic and timing
  after-connection, and under one and the same firewall settings the two never both do.\<close>

theorem C2_firewall_exclusive:
  "firewall_enabled_by m (connectClickImpl_firewall m) =
     (if fw_mode (firewallSettings (engineSettings m)) = FIREWALL_MODE_AUTOMATIC
         \<and> fw_when (firewallSettings (engineSettings m)) = FIREWALL_WHEN_BEFORE_CONNECTION
         \<and> \<not> ask fw_firewallActualState m
      then [FW (FW_firewallOn (fe_connectingIp (firewallExceptions m))
                  (getIPAddressesForFirewall (env m) (firewallExceptions m))
                  (isAllowLanTraffic (engineSettings m)) (isCustomConfigsLocation (locationId m)))]
      else [])
   \<and> (Emit (firewallStateChanged True) \<in> set (new_calls m (connectClickImpl_firewall m)) \<longleftrightarrow>
      fw_mode (firewallSettings (engineSettings m)) = FIREWALL_MODE_AUTOMATIC
      \<and> fw_when (firewallSettings (engineSettings m)) = FIREWALL_WHEN_BEFORE_CONNECTION
      \<and> \<not> ask fw_firewallActualState m)
   \<and> firewall_enabled_by m (snd (onConnectionManagerConnected_firewall m)) =
     (if fw_mode (firewallSettings (engineSettings m)) = FIREWALL_MODE_AUTOMATIC
         \<and> fw_when (firewallSettings (engineSettings m)) = FIREWALL_WHEN_AFTER_CONNECTION
         \<and> ask cm_isAllowFirewallAfterConnection m
         \<and> \<not> ask fw_firewallActualState m
      then [FW (FW_firewallOn (ask cm_getLastConnectedIp m)
                  (getIPAddressesForFirewallForConnectedState (env m) (firewallExceptions m))
                  (isAllowLanTraffic (engineSettings m)) (isCustomConfigsLocation (locationId m)))]
      else [])
   \<and> (Emit (firewallStateChanged True) \<in> set (new_calls m (snd (onConnectionManagerConnected_firewall m))) \<longleftrightarrow>
      fw_mode (firewallSettings (engineSettings m)) = FIREWALL_MODE_AUTOMATIC
      \<and> fw_when (firewallSettings (engineSettings m)) = FIREWALL_WHEN_AFTER_CONNECTION
      \<and> ask cm_isAllowFirewallAfterConnection m
      \<and> \<not> ask fw_firewallActualState m)
   \<and> firewall_enabled_by s (connectClickImpl loc cs s) =
     (if ask cm_isDisconnected s \<and> \<not> (isBlockConnect s \<and> \<not> isCustomConfigsLocation loc)
      then firewall_enabled_by
             (connectClickImpl_before_firewall (s\<lparr>locationId := loc, connectionSettingsOverride := cs\<rparr>))
             (connectClickImpl_firewall
               (connectClickImpl_before_firewall (s\<lparr>locationId := loc, connectionSettingsOverride := cs\<rparr>)))
      else [])
   \<and> engineSettings (connectClickImpl_before_firewall (s\<lparr>locationId := loc, connectionSettingsOverride := cs\<rparr>))
       = engineSettings s
   \<and> firewall_enabled_by s' (onConnectionManagerConnected s') =
       firewall_enabled_by (onConnectionManagerConnected_begin s')
         (snd (onConnectionManagerConnected_firewall (onConnectionManagerConnected_begin s')))
   \<and> engineSettings (onConnectionManagerConnected_begin s') = engineSettings s'
   \<and> (firewall_enabled_by s (connectClickImpl loc cs s) \<noteq> []
        \<or> Emit (firewallStateChanged True) \<in> set (new_calls s (connectClickImpl loc cs s)) \<longrightarrow>
      fw_mode (firewallSettings (engineSettings s)) = FIREWALL_MODE_AUTOMATIC
      \<and> fw_when (firewallSettings (engineSettings s)) = FIREWALL_WHEN_BEFORE_CONNECTION)
   \<and> (firewall_enabled_by s' (onConnectionManagerConnected s') \<noteq> []
        \<or> Emit (firewallStateChanged True) \<in> set (new_calls s' (onConnectionManagerConnected s')) \<longrightarrow>
      fw_mode (firewallSettings (engineSettings s')) = FIREWALL_MODE_AUTOMATIC
      \<and> fw_when (firewallSettings (engineSettings s')) = FIREWALL_WHEN_AFTER_CONNECTION)
   \<and> (firewallSettings (engineSettings s') = firewallSettings (engineSettings s) \<longrightarrow>
      \<not> ((firewall_enabled_by s (connectClickImpl loc cs s) \<noteq> []
            \<or> Emit (firewallStateChanged True) \<in> set (new_calls s (connectClickImpl loc cs s)))
         \<and> (firewall_enabled_by s' (onConnectionManagerConnected s') \<noteq> []
            \<or> Emit (firewallStateChanged True) \<in> set (new_calls s' (onConnectionManagerConnected s')))))"
proof -
  let ?on = "Emit (firewallStateChanged True)"
  let ?B = "fw_mode (firewallSettings (engineSettings s)) = FIREWALL_MODE_AUTOMATIC
      \<and> fw_when (firewallSettings (engineSettings s)) = FIREWALL_WHEN_BEFORE_CONNECTION"
  let ?A = "fw_mode (firewallSettings (engineSettings s')) = FIREWALL_MODE_AUTOMATIC
      \<and> fw_when (firewallSettings (engineSettings s')) = FIREWALL_WHEN_AFTER_CONNECTION"
  define s0 where "s0 = s\<lparr>locationId := loc, connectionSettingsOverride := cs\<rparr>"
  define p where "p = connectClickImpl_before_firewall s0"
  define b where "b = onConnectionManagerConnected_begin s'"
  have before_signal: "?on \<in> set (new_calls m (connectClickImpl_firewall m)) \<longleftrightarrow>
      fw_mode (firewallSettings (engineSettings m)) = FIREWALL_MODE_AUTOMATIC
      \<and> fw_when (firewallSettings (engineSettings m)) = FIREWALL_WHEN_BEFORE_CONNECTION
      \<and> \<not> ask fw_firewallActualState m"
    by (auto simp: connectClickImpl_firewall_def Let_def new_calls_def)
  have after_signal: "?on \<in> set (new_calls m (snd (onConnectionManagerConnected_firewall m))) \<longleftrightarrow>
      fw_mode (firewallSettings (engineSettings m)) = FIREWALL_MODE_AUTOMATIC
      \<and> fw_when (firewallSettings (engineSettings m)) = FIREWALL_WHEN_AFTER_CONNECTION
      \<and> ask cm_isAllowFirewallAfterConnection m
      \<and> \<not> ask fw_firewallActualState m"
    by (auto simp: onConnectionManagerConnected_firewall_def Let_def new_calls_def)
  have sp: "engineSettings p = engineSettings s"
    using run_frame(11) [OF no_enabling_run [OF connectClickImpl_before_firewall_ne [of s0]]]
    by (simp add: p_def s0_def)
  have sb: "engineSettings b = engineSettings s'"
    using run_frame(11) [OF no_enabling_run [OF onConnectionManagerConnected_begin_ne [of s']]]
    by (simp add: b_def)
  have before_eq: "firewall_enabled_by s (connectClickImpl loc cs s) =
     (if ask cm_isDisconnected s \<and> \<not> (isBlockConnect s \<and> \<not> isCustomConfigsLocation loc)
      then firewall_enabled_by p (connectClickImpl_firewall p) else [])"
    unfolding p_def s0_def by (rule connectClickImpl_enabled)
  have after_eq: "firewall_enabled_by s' (onConnectionManagerConnected s') =
       firewall_enabled_by b (snd (onConnectionManagerConnected_firewall b))"
    unfolding b_def by (rule onConnectionManagerConnected_enabled)
  have before_call: ?B if "firewall_enabled_by s (connectClickImpl loc cs s) \<noteq> []"
  proof -
    from that have "firewall_enabled_by p (connectClickImpl_firewall p) \<noteq> []"
      unfolding before_eq by (simp split: if_splits)
    then show ?thesis
      unfolding connectClickImpl_firewall_calls sp by (simp split: if_splits)
  qed
  have after_call: ?A if "firewall_enabled_by s' (onConnectionManagerConnected s') \<noteq> []"
    using that unfolding after_eq onConnectionManagerConnected_firewall_calls sb
    by (simp split: if_splits)
  have before_sig: ?B if on: "?on \<in> set (new_calls s (connectClickImpl loc cs s))"
  proof -
    define P where "P c \<longleftrightarrow> (c = ?on \<longrightarrow> ?B)" for c
    have disc: "ask cm_isDisconnected s"
    proof (rule ccontr)
      assume "\<not> ask cm_isDisconnected s"
      then have "new_calls s (connectClickImpl loc cs s) =
          [CM (CM_setProperty_senderSource (Some ''reconnect'')), CM CM_clickDisconnect]"
        by (simp add: connectClickImpl_def Let_def setProperty_senderSource_def new_calls_def ask_def)
      with on show False by simp
    qed
    have "run P s0 (connectClickImpl loc cs s)"
      unfolding s0_def
    proof (rule connectClickImpl_run [OF disc])
      show "P c" if "c \<noteq> ?on" for c
        using that by (simp add: P_def)
      show "P ?on"
        if "run P (s\<lparr>locationId := loc, connectionSettingsOverride := cs\<rparr>) m"
          "fw_mode (firewallSettings (engineSettings m)) = FIREWALL_MODE_AUTOMATIC"
          "fw_when (firewallSettings (engineSettings m)) = FIREWALL_WHEN_BEFORE_CONNECTION" for m
        using that(2,3) run_frame(11) [OF that(1)] by (simp add: P_def)
    qed
    then have "list_all P (new_calls s0 (connectClickImpl loc cs s))"
      by (rule run_all)
    moreover have "new_calls s0 (connectClickImpl loc cs s) = new_calls s (connectClickImpl loc cs s)"
      by (rule new_calls_same) (simp add: s0_def)
    ultimately have "P ?on"
      using on by (simp add: list_all_iff)
    then show ?thesis
      by (simp add: P_def)
  qed
  have after_sig: ?A if on: "?on \<in> set (new_calls s' (onConnectionManagerConnected s'))"
  proof -
    define P where "P c \<longleftrightarrow> (c = ?on \<longrightarrow> ?A)" for c
    have "run P s' (onConnectionManagerConnected s')"
    proof (rule onConnectionManagerConnected_run)
      show "P c" if "c \<noteq> ?on" for c
        using that by (simp add: P_def)
      show "P ?on"
        if "run P s' m"
          "fw_mode (firewallSettings (engineSettings m)) = FIREWALL_MODE_AUTOMATIC"
          "fw_when (firewallSettings (engineSettings m)) = FIREWALL_WHEN_AFTER_CONNECTION" for m
        using that(2,3) run_frame(11) [OF that(1)] by (simp add: P_def)
      show "P (Helper (changeMtu a v))" for a v
        by (simp add: P_def)
    qed
    then have "list_all P (new_calls s' (onConnectionManagerConnected s'))"
      by (rule run_all)
    then have "P ?on"
      using on by (simp add: list_all_iff)
    then show ?thesis
      by (simp add: P_def)
  qed
  have before: "firewall_enabled_by s (connectClickImpl loc cs s) \<noteq> []
        \<or> ?on \<in> set (new_calls s (connectClickImpl loc cs s)) \<longrightarrow> ?B"
    using before_call before_sig by blast
  have after: "firewall_enabled_by s' (onConnectionManagerConnected s') \<noteq> []
        \<or> ?on \<in> set (new_calls s' (onConnectionManagerConnected s')) \<longrightarrow> ?A"
    using after_call after_sig by blast
  have excl: "\<not> ((firewall_enabled_by s (connectClickImpl loc cs s) \<noteq> []
            \<or> ?on \<in> set (new_calls s (connectClickImpl loc cs s)))
         \<and> (firewall_enabled_by s' (onConnectionManagerConnected s') \<noteq> []
            \<or> ?on \<in> set (new_calls s' (onConnectionManagerConnected s'))))"
    if "firewallSettings (engineSettings s') = firewallSettings (engineSettings s)"
  proof
    assume both: "(firewall_enabled_by s (connectClickImpl loc cs s) \<noteq> []
            \<or> ?on \<in> set (new_calls s (connectClickImpl loc cs s)))
         \<and> (firewall_enabled_by s' (onConnectionManagerConnected s') \<noteq> []
            \<or> ?on \<in> set (new_calls s' (onConnectionManagerConnected s')))"
    with before have b: ?B by blast
    from both after have a: ?A by blast
    from a b that show False by simp
  qed
  show ?thesis
    apply (intro conjI)
               apply (rule connectClickImpl_firewall_calls)
              apply (rule before_signal)
             apply (rule onConnectionManagerConnected_firewall_calls)
            apply (rule after_signal)
           apply (rule connectClickImpl_enabled)
          apply (rule sp [unfolded p_def s0_def])
         apply (rule onConnectionManagerConnected_enabled)
        apply (rule sb [unfolded b_def])
       apply (rule before)
      apply (rule after)
    apply (rule impI)
    apply (erule excl)
    done
qed

lemma engine0_connect_calls:
  "new_calls engine0 (connectClickImpl toronto noOverride engine0) =
     [ARM ARM_disconnect_serverCredentialsFetched,
      FW (FW_firewallOn [] [] False False),
      Emit (firewallStateChanged True),
      Misc Logger_startConnectionMode,
      CM (CM_setLastKnownGoodProtocol WIREGUARD),
      CM (CM_clickConnect ''client'' [''user'', ''secret'']
        \<lparr>bli_locationId = toronto, bli_name = ''Toronto'', bli_isExistSelectedNode = True\<rparr>
        automaticSettings [443] \<lparr>curlAddress = [], proxyUsername = [], proxyPassword = []\<rparr> True [])]"
  unfolding connectClickImpl_def connectClickImpl_firewall_def doConnect_def
    addCustomRemoteIpToFirewallIfNeed_def stopFetchingServerCredentials_def case_prod_unfold
  by (simp add: eval_simps toronto_def noOverride_def
      cong: let_weak_cong platform.case_cong_weak option.case_cong_weak)

lemma engine0_after_connected_calls:
  "new_calls engine0_after (onConnectionManagerConnected engine0_after) =
     [FW (FW_setInterfaceToSkip_posix ''utun420''),
      FW (FW_firewallOn ''10.0.0.1'' [] False False),
      Emit (firewallStateChanged True),
      Helper (sendConnectStatus True False False
        \<lparr>adapterName = ''eth0'', ifIndex = 2, dnsServers = [''192.168.1.1''], gateway = ''192.168.1.1''\<rparr>
        \<lparr>adapterName = ''utun420'', ifIndex = 7, dnsServers = [''10.255.255.1''], gateway = ''10.0.0.1''\<rparr>
        ''10.0.0.1'' WIREGUARD),
      Helper (changeMtu ''utun420'' 1420),
      Misc (HttpNetworkManager_setProxySettings None),
      Misc (DnsServersConfiguration_setConnectedState [''10.255.255.1'']),
      Misc (VpnShare_onConnectedToVPNEvent ''utun420''),
      CSC (setConnectedState toronto),
      CM CM_startTunnelTests]"
  unfolding onConnectionManagerConnected_def onConnectionManagerConnected_firewall_def
      onConnectionManagerConnected_mtu_def case_prod_unfold
  by (simp add: eval_simps engine0_after_def toronto_def cong: let_weak_cong platform.case_cong_weak)

lemma engine0_after_connect_calls:
  "new_calls engine0_after (connectClickImpl toronto noOverride engine0_after) =
     [ARM ARM_disconnect_serverCredentialsFetched,
      Misc Logger_startConnectionMode,
      CM (CM_setLastKnownGoodProtocol WIREGUARD),
      CM (CM_clickConnect ''client'' [''user'', ''secret'']
        \<lparr>bli_locationId = toronto, bli_name = ''Toronto'', bli_isExistSelectedNode = True\<rparr>
        automaticSettings [443] \<lparr>curlAddress = [], proxyUsername = [], proxyPassword = []\<rparr> True [])]"
  unfolding connectClickImpl_def connectClickImpl_firewall_def doConnect_def
    addCustomRemoteIpToFirewallIfNeed_def stopFetchingServerCredentials_def case_prod_unfold
  by (simp add: eval_simps engine0_after_def toronto_def noOverride_def
      cong: let_weak_cong platform.case_cong_weak option.case_cong_weak)

lemma engine0_live_calls:
  "calls (connectClickImpl toronto noOverride engine0_live) =
     [ARM ARM_disconnect_serverCredentialsFetched,
      FW (FW_firewallOn [] [] False False),
      Emit (firewallStateChanged True),
      Misc Logger_startConnectionMode,
      CM (CM_setLastKnownGoodProtocol WIREGUARD),
      CM (CM_clickConnect ''client'' [''user'', ''secret'']
        \<lparr>bli_locationId = toronto, bli_name = ''Toronto'', bli_isExistSelectedNode = True\<rparr>
        automaticSettings [443] \<lparr>curlAddress = [], proxyUsername = [], proxyPassword = []\<rparr> True [])]"
  "new_calls (connectClickImpl toronto noOverride engine0_live)
       (onConnectionManagerConnected (connectClickImpl toronto noOverride engine0_live)) =
     [FW (FW_setInterfaceToSkip_posix ''utun420''),
      Helper (sendConnectStatus True False False
        \<lparr>adapterName = ''eth0'', ifIndex = 2, dnsServers = [''192.168.1.1''], gateway = ''192.168.1.1''\<rparr>
        \<lparr>adapterName = ''utun420'', ifIndex = 7, dnsServers = [''10.255.255.1''], gateway = ''10.0.0.1''\<rparr>
        ''10.0.0.1'' WIREGUARD),
      FW (FW_firewallOn ''10.0.0.1'' [] False False),
      Helper (changeMtu ''utun420'' 1420),
      Misc (HttpNetworkManager_setProxySettings None),
      Misc (DnsServersConfiguration_setConnectedState [''10.255.255.1'']),
      Misc (VpnShare_onConnectedToVPNEvent ''utun420''),
      CSC (setConnectedState toronto),
      CM CM_startTunnelTests]"
  "env (connectClickImpl toronto noOverride engine0_live) = env engine0_live"
  "firewallSettings (engineSettings (connectClickImpl toronto noOverride engine0_live)) =
     firewallSettings (engineSettings engine0_live)"
  unfolding onConnectionManagerConnected_def onConnectionManagerConnected_firewall_def
    onConnectionManagerConnected_mtu_def 
    connectClickImpl_def connectClickImpl_firewall_def doConnect_def
    addCustomRemoteIpToFirewallIfNeed_def stopFetchingServerCredentials_def case_prod_unfold
    engine0_live_def
  by (simp_all add: eval_simps toronto_def noOverride_def
      cong: let_weak_cong platform.case_cong_weak option.case_cong_weak)

theorem C2_firewall_exclusive_witness:
  "firewall_enabled_by engine0 (connectClickImpl toronto noOverride engine0) =
     [FW (FW_firewallOn [] [] False False)]
   \<and> fw_mode (firewallSettings (engineSettings engine0)) = FIREWALL_MODE_AUTOMATIC
   \<and> fw_when (firewallSettings (engineSettings engine0)) = FIREWALL_WHEN_BEFORE_CONNECTION
   \<and> firewall_enabled_by engine0 (onConnectionManagerConnected engine0) = []
   \<and> Emit (firewallStateChanged True) \<notin> set (new_calls engine0 (onConnectionManagerConnected engine0))
   \<and> firewall_enabled_by engine0_after (onConnectionManagerConnected engine0_after) =
     [FW (FW_firewallOn ''10.0.0.1'' [] False False)]
   \<and> fw_when (firewallSettings (engineSettings engine0_after)) = FIREWALL_WHEN_AFTER_CONNECTION
   \<and> firewall_enabled_by engine0_after (connectClickImpl toronto noOverride engine0_after) = []
   \<and> Emit (firewallStateChanged True) \<notin> set (new_calls engine0_after (connectClickImpl toronto noOverride engine0_after))
   \<and> firewall_enabled_by engine0_live (connectClickImpl toronto noOverride engine0_live) =
     [FW (FW_firewallOn [] [] False False)]
   \<and> FW (FW_firewallOn ''10.0.0.1'' [] False False) \<in> set
       (new_calls (connectClickImpl toronto noOverride engine0_live)
         (onConnectionManagerConnected (connectClickImpl toronto noOverride engine0_live)))
   \<and> firewall_enabled_by (connectClickImpl toronto noOverride engine0_live)
       (onConnectionManagerConnected (connectClickImpl toronto noOverride engine0_live)) = []"
proof -
  have e0: "firewall_enabled_by engine0 (connectClickImpl toronto noOverride engine0) =
     [FW (FW_firewallOn [] [] False False)]"
    by (simp add: firewall_enabled_by_def engine0_connect_calls engine0_fields env0_fields)
  have s0: "fw_mode (firewallSettings (engineSettings engine0)) = FIREWALL_MODE_AUTOMATIC"
    "fw_when (firewallSettings (engineSettings engine0)) = FIREWALL_WHEN_BEFORE_CONNECTION"
    by (simp_all add: engine0_fields)
  note t0 = C2_firewall_exclusive [where m = engine0 and s = engine0 and s' = engine0
      and loc = toronto and cs = noOverride]
  from e0 t0 [THEN conjunct2, THEN conjunct2, THEN conjunct2, THEN conjunct2, THEN conjunct2, THEN conjunct2, THEN conjunct2, THEN conjunct2, THEN conjunct2, THEN conjunct2]
  have n0: "firewall_enabled_by engine0 (onConnectionManagerConnected engine0) = []"
    "Emit (firewallStateChanged True) \<notin> set (new_calls engine0 (onConnectionManagerConnected engine0))"
    by auto
  have e1: "firewall_enabled_by engine0_after (onConnectionManagerConnected engine0_after) =
     [FW (FW_firewallOn ''10.0.0.1'' [] False False)]"
  proof -
    have "env engine0_after = env0" "calls engine0_after = []"
      by (simp_all add: engine0_after_def engine0_fields)
    then show ?thesis
      by (simp add: firewall_enabled_by_def engine0_after_connected_calls env0_fields)
  qed
  note t1 = C2_firewall_exclusive [where m = engine0_after and s = engine0_after and s' = engine0_after
      and loc = toronto and cs = noOverride]
  from e1 t1 [THEN conjunct2, THEN conjunct2, THEN conjunct2, THEN conjunct2, THEN conjunct2, THEN conjunct2, THEN conjunct2, THEN conjunct2, THEN conjunct2, THEN conjunct1] t1 [THEN conjunct2, THEN conjunct2, THEN conjunct2, THEN conjunct2, THEN conjunct2, THEN conjunct2, THEN conjunct2, THEN conjunct2, THEN conjunct2, THEN conjunct2]
  have s1: "fw_when (firewallSettings (engineSettings engine0_after)) = FIREWALL_WHEN_AFTER_CONNECTION"
    and n1: "firewall_enabled_by engine0_after (connectClickImpl toronto noOverride engine0_after) = []"
      "Emit (firewallStateChanged True) \<notin> set (new_calls engine0_after (connectClickImpl toronto noOverride engine0_after))"
    by simp_all
  let ?c = "connectClickImpl toronto noOverride engine0_live"
  have c0: "new_calls engine0_live ?c = calls ?c"
    by (simp add: new_calls_def engine0_live_def engine0_fields)
  have e2: "firewall_enabled_by engine0_live ?c = [FW (FW_firewallOn [] [] False False)]"
  proof -
    have "fw_firewallActualState (env engine0_live) = list_ex is_firewallOn" "calls engine0_live = []"
      by (simp_all add: engine0_live_def engine0_fields)
    then show ?thesis
      by (simp add: firewall_enabled_by_def c0 engine0_live_calls(1))
  qed
  have r2: "FW (FW_firewallOn ''10.0.0.1'' [] False False) \<in> set (new_calls ?c (onConnectionManagerConnected ?c))"
    by (simp add: engine0_live_calls(2))
  note t2 = C2_firewall_exclusive [where m = engine0_live and s = engine0_live and s' = ?c
      and loc = toronto and cs = noOverride]
  from e2 engine0_live_calls(4) t2 [THEN conjunct2, THEN conjunct2, THEN conjunct2, THEN conjunct2, THEN conjunct2, THEN conjunct2, THEN conjunct2, THEN conjunct2, THEN conjunct2, THEN conjunct2]
  have n2: "firewall_enabled_by ?c (onConnectionManagerConnected ?c) = []"
    by simp
  from e0 s0 n0 e1 s1 n1 e2 r2 n2 show ?thesis
    by blast
qed

section \<open>Authentication errors\<close>

lemma new_calls_trans:
  "calls m = calls s @ xs \<Longrightarrow> calls r = calls m @ ys \<Longrightarrow> new_calls s r = xs @ ys"
  by (simp add: new_calls_def)

lemma doConnect_slots [simp]:
  "serverCredentialsFetched_slots (doConnect e m) = serverCredentialsFetched_slots m"
  "apiResourcesManager (doConnect e m) = apiResourcesManager m"
  by (simp_all add: doConnect_def Let_def split: option.split)


lemma doConnect_extends: "calls (doConnect e m) = calls m @ new_calls m (doConnect e m)"
  by (simp add: doConnect_def Let_def new_calls_def split: option.split)






section \<open>Reconnecting to another location\<close>

lemma not_CM_weaken: "aux_call c \<Longrightarrow> \<not> is_CM c"
  by (cases c) simp_all

lemma connectClickImpl_prepare_run: "run (\<lambda>c. \<not> is_CM c) s (connectClickImpl_prepare s)"
  unfolding connectClickImpl_prepare_def
  by (intro run_connect_firewall run_aux run_rules; simp add: not_CM_weaken)

lemma filter_none: "list_all (\<lambda>c. \<not> P c) xs \<Longrightarrow> filter P xs = []"
  by (induction xs) auto

lemma is_connect_or_disconnect_CM: "is_connect_or_disconnect c \<Longrightarrow> is_CM c"
  and is_clickConnect_CM: "is_clickConnect c \<Longrightarrow> is_CM c"
  by (auto simp: is_connect_or_disconnect_def elim: is_clickConnect.elims)

lemma filter_sub: "filter is_CM xs = [] \<Longrightarrow> filter is_connect_or_disconnect xs = [] \<and> filter is_clickConnect xs = []"
  by (auto simp: filter_empty_conv dest: is_connect_or_disconnect_CM is_clickConnect_CM)

lemma doConnect_cm_calls:
  "filter is_connect_or_disconnect (new_calls m (doConnect e m)) = filter is_clickConnect (new_calls m (doConnect e m))"
  "length (filter is_clickConnect (new_calls m (doConnect e m))) \<le> 1"
  "CM (CM_clickConnect ovpn creds bli cs pm px b path) \<in> set (new_calls m (doConnect e m)) \<Longrightarrow>
     ask lm_getMutableLocationInfoById m (locationId m) = Some bli"
  "ask lm_getMutableLocationInfoById m (locationId m) = Some bli0 \<Longrightarrow> bli_isExistSelectedNode bli0 \<Longrightarrow>
     length (filter is_clickConnect (new_calls m (doConnect e m))) = 1"
  by (auto simp: doConnect_def Let_def new_calls_def is_connect_or_disconnect_def split: option.splits if_splits)


lemma setProperty_senderSource_simps [simp]:
  "calls (setProperty_senderSource v m) = calls m @ [CM (CM_setProperty_senderSource v)]"
  "senderSource (setProperty_senderSource v m) = v"
  "locationId (setProperty_senderSource v m) = locationId m"
  "connectionSettingsOverride (setProperty_senderSource v m) = connectionSettingsOverride m"
  "env (setProperty_senderSource v m) = env m"
  "isBlockConnect (setProperty_senderSource v m) = isBlockConnect m"
  by (simp_all add: setProperty_senderSource_def)

lemma restore_with_sender:
  assumes ss: "senderSource s = Some v"
  shows "\<exists>m1. run aux_call s m1
           \<and> run aux_call (setProperty_senderSource None m1) (snd (onConnectionManagerDisconnected_restore s))
           \<and> fst (onConnectionManagerDisconnected_restore s) = v"
proof -
  define d where "d = (case os (env s) of Q_OS_WIN \<Rightarrow> enableDohSettings s | Q_OS_MAC \<Rightarrow> s | Q_OS_LINUX \<Rightarrow> s)"
  define m1 where "m1 = (if ask cm_isStaticIpsLocation d then do_call (FW FW_deleteWhitelistPorts) d else d)"
  let ?m2 = "setProperty_senderSource None m1"
  have r1: "run aux_call s m1"
    unfolding m1_def d_def by (intro run_rules run_aux; simp)
  have ss1: "senderSource m1 = Some v"
    using run_frame(14) [OF r1] ss by simp
  have eq: "onConnectionManagerDisconnected_restore s =
      (v, case os (env (doDisconnectRestoreStuff ?m2)) of
            Q_OS_WIN \<Rightarrow> do_call (Misc DnsInfo_win_outputDebugDnsInfo) (doDisconnectRestoreStuff ?m2)
          | Q_OS_MAC \<Rightarrow> doDisconnectRestoreStuff ?m2
          | Q_OS_LINUX \<Rightarrow> doDisconnectRestoreStuff ?m2)"
    unfolding onConnectionManagerDisconnected_restore_def Let_def d_def [symmetric] m1_def [symmetric]
    by (simp add: ss1)
  have r2: "run aux_call ?m2 (snd (onConnectionManagerDisconnected_restore s))"
    unfolding eq snd_conv
    by (intro run_rules run_then [OF doDisconnectRestoreStuff_aux]; simp)
  from r1 r2 eq show ?thesis
    by auto
qed

lemma doConnect_selected:
  "CM (CM_clickConnect ovpn creds bli cs pm px b path) \<in> set (new_calls m (doConnect e m)) \<Longrightarrow>
     bli_isExistSelectedNode bli"
  by (auto simp: doConnect_def Let_def new_calls_def split: option.splits if_splits)

lemma doConnect_no_disconnecting: "CSC setDisconnectingState \<notin> set (new_calls m (doConnect e m))"
  by (auto simp: doConnect_def Let_def new_calls_def split: option.splits if_splits)

lemma connectClickImpl_prepare_no_csc: "run (\<lambda>c. \<forall>x. c \<noteq> CSC x) s (connectClickImpl_prepare s)"
  unfolding connectClickImpl_prepare_def
  by (intro run_connect_firewall run_aux run_rules; simp add: aux_call_not)

text \<open>C1, amended: the connect command sets the connect state to Connecting for the
  requested location and posts connectClickImpl. connectClickImpl, run while the
  ConnectionManager is not disconnected, starts no attempt: it stores the location and the
  settings, sets the sender source to "reconnect" and calls clickDisconnect, nothing else.
  When the disconnect completes with that sender source, onConnectionManagerDisconnected
  resets the property (its only ConnectionManager call before the re-invocation, and no
  connect-state call) and then is connectClickImpl for the stored location and settings,
  run once on the restored state. Together, when the ConnectionManager reports
  disconnected at the re-invocation: the connect and disconnect requests made from
  connectClickImpl to the end of the completion handler are exactly one clickDisconnect
  followed by at most one clickConnect, whose location info is the one resolved for the
  requested location and has a selected node; by exactly one clickConnect when the
  connection is not blocked and the location resolves with a selected node, and by none
  when the connection is blocked or the location never resolves with a selected node. On
  this path the Engine never sets the connect state to Disconnecting.\<close>

theorem C1_reconnect:
  "(bInitialized s \<longrightarrow>
      connectClick loc cs s =
        s\<lparr>locationId := loc,
          calls := calls s @ [CSC (setConnectingState loc), Queued (Invoke_connectClickImpl loc cs)]\<rparr>)
   \<and> (\<not> ask cm_isDisconnected s \<longrightarrow>
      connectClickImpl loc cs s =
        s\<lparr>locationId := loc, connectionSettingsOverride := cs, senderSource := Some ''reconnect'',
          calls := calls s @ [CM (CM_setProperty_senderSource (Some ''reconnect'')), CM CM_clickDisconnect]\<rparr>)
   \<and> (senderSource s = Some ''reconnect'' \<longrightarrow>
      onConnectionManagerDisconnected reason s =
        connectClickImpl (locationId s) (connectionSettingsOverride s)
          (snd (onConnectionManagerDisconnected_restore s))
      \<and> senderSource (snd (onConnectionManagerDisconnected_restore s)) = None
      \<and> filter is_CM (new_calls s (snd (onConnectionManagerDisconnected_restore s))) =
          [CM (CM_setProperty_senderSource None)]
      \<and> (\<forall>x. CSC x \<notin> set (new_calls s (snd (onConnectionManagerDisconnected_restore s)))))
   \<and> (\<not> ask cm_isDisconnected s
       \<and> ask cm_isDisconnected (snd (onConnectionManagerDisconnected_restore (connectClickImpl loc cs s))) \<longrightarrow>
      (let s2 = onConnectionManagerDisconnected reason (connectClickImpl loc cs s);
           rest = filter is_clickConnect (new_calls s s2)
       in filter is_connect_or_disconnect (new_calls s s2) = CM CM_clickDisconnect # rest
          \<and> length rest \<le> 1
          \<and> (\<forall>ovpn creds bli cs' pm px b path.
                CM (CM_clickConnect ovpn creds bli cs' pm px b path) \<in> set rest \<longrightarrow>
                (\<exists>tr. lm_getMutableLocationInfoById (env s) tr loc = Some bli)
                \<and> bli_isExistSelectedNode bli)
          \<and> (\<not> (isBlockConnect s \<and> \<not> isCustomConfigsLocation loc)
               \<and> (\<forall>tr. \<exists>bli. lm_getMutableLocationInfoById (env s) tr loc = Some bli
                      \<and> bli_isExistSelectedNode bli) \<longrightarrow>
             length rest = 1)
          \<and> (isBlockConnect s \<and> \<not> isCustomConfigsLocation loc \<longrightarrow> rest = [])
          \<and> ((\<forall>tr bli. lm_getMutableLocationInfoById (env s) tr loc = Some bli \<longrightarrow>
                  \<not> bli_isExistSelectedNode bli) \<longrightarrow> rest = [])
          \<and> CSC setDisconnectingState \<notin> set (new_calls s s2)))"
proof (intro conjI impI)
  assume "bInitialized s"
  then show "connectClick loc cs s =
        s\<lparr>locationId := loc,
          calls := calls s @ [CSC (setConnectingState loc), Queued (Invoke_connectClickImpl loc cs)]\<rparr>"
    by (simp add: connectClick_def Let_def do_call_def)
next
  assume "\<not> ask cm_isDisconnected s"
  then show "connectClickImpl loc cs s =
        s\<lparr>locationId := loc, connectionSettingsOverride := cs, senderSource := Some ''reconnect'',
          calls := calls s @ [CM (CM_setProperty_senderSource (Some ''reconnect'')), CM CM_clickDisconnect]\<rparr>"
    by (simp add: connectClickImpl_def Let_def setProperty_senderSource_def do_call_def ask_def)
next
  assume ss: "senderSource s = Some ''reconnect''"
  let ?m = "snd (onConnectionManagerDisconnected_restore s)"
  from restore_with_sender [OF ss] obtain m1 where
    r1: "run aux_call s m1" and r2: "run aux_call (setProperty_senderSource None m1) ?m"
    and f: "fst (onConnectionManagerDisconnected_restore s) = ''reconnect''"
    by blast
  have loc: "locationId ?m = locationId s" "connectionSettingsOverride ?m = connectionSettingsOverride s"
    using run_frame(9,10) [OF r1] run_frame(9,10) [OF r2] by simp_all
  show "onConnectionManagerDisconnected reason s =
        connectClickImpl (locationId s) (connectionSettingsOverride s) ?m"
    by (simp add: onConnectionManagerDisconnected_def case_prod_beta f loc)
  show "senderSource ?m = None"
    using run_frame(14) [OF r2] by simp
  have c1: "calls m1 = calls s @ new_calls s m1"
    by (rule run_calls [OF r1])
  have c2: "calls ?m = calls m1 @ ([CM (CM_setProperty_senderSource None)]
      @ new_calls (setProperty_senderSource None m1) ?m)"
    using run_calls [OF r2] by simp
  have split: "new_calls s ?m = new_calls s m1 @ [CM (CM_setProperty_senderSource None)]
      @ new_calls (setProperty_senderSource None m1) ?m"
    by (rule new_calls_trans [OF c1 c2])
  have a1: "list_all (\<lambda>c. \<not> is_CM c) (new_calls s m1)"
    and a2: "list_all (\<lambda>c. \<not> is_CM c) (new_calls (setProperty_senderSource None m1) ?m)"
    using run_all [OF r1] run_all [OF r2] by (auto simp: list_all_iff dest: not_CM_weaken)
  show "filter is_CM (new_calls s ?m) = [CM (CM_setProperty_senderSource None)]"
    unfolding split by (simp add: filter_none [OF a1] filter_none [OF a2])
  show "\<forall>x. CSC x \<notin> set (new_calls s ?m)"
    unfolding split using run_all [OF r1] run_all [OF r2] by (auto simp: list_all_iff)
next
  assume h: "\<not> ask cm_isDisconnected s
       \<and> ask cm_isDisconnected (snd (onConnectionManagerDisconnected_restore (connectClickImpl loc cs s)))"
  define s1 where "s1 = connectClickImpl loc cs s"
  define m where "m = snd (onConnectionManagerDisconnected_restore s1)"
  define s2 where "s2 = onConnectionManagerDisconnected reason s1"
  from h have s1_eq: "s1 = s\<lparr>locationId := loc, connectionSettingsOverride := cs, senderSource := Some ''reconnect'',
          calls := calls s @ [CM (CM_setProperty_senderSource (Some ''reconnect'')), CM CM_clickDisconnect]\<rparr>"
    by (simp add: s1_def connectClickImpl_def Let_def setProperty_senderSource_def do_call_def ask_def)
  have ss: "senderSource s1 = Some ''reconnect''" and l1: "locationId s1 = loc"
    and o1: "connectionSettingsOverride s1 = cs" and e1: "env s1 = env s"
    and b1: "isBlockConnect s1 = isBlockConnect s"
    and c01: "calls s1 = calls s @ [CM (CM_setProperty_senderSource (Some ''reconnect'')), CM CM_clickDisconnect]"
    by (simp_all add: s1_eq)
  from restore_with_sender [OF ss] obtain m1 where
    r1: "run aux_call s1 m1" and r2: "run aux_call (setProperty_senderSource None m1) m"
    and f: "fst (onConnectionManagerDisconnected_restore s1) = ''reconnect''"
    unfolding m_def by blast
  have fr: "locationId m = loc" "connectionSettingsOverride m = cs" "env m = env s"
    "isBlockConnect m = isBlockConnect s"
    using run_frame(9,10,1,4) [OF r1] run_frame(9,10,1,4) [OF r2] l1 o1 e1 b1 by simp_all
  have s2_eq: "s2 = connectClickImpl loc cs m"
    by (simp add: s2_def onConnectionManagerDisconnected_def case_prod_beta f m_def [symmetric] fr)
  have disc: "ask cm_isDisconnected m"
    using h by (simp add: m_def s1_def)
  have c1: "calls m1 = calls s1 @ new_calls s1 m1"
    by (rule run_calls [OF r1])
  have c2: "calls m = calls m1 @ ([CM (CM_setProperty_senderSource None)]
      @ new_calls (setProperty_senderSource None m1) m)"
    using run_calls [OF r2] by simp
  have split1: "new_calls s1 m = new_calls s1 m1 @ [CM (CM_setProperty_senderSource None)]
      @ new_calls (setProperty_senderSource None m1) m"
    by (rule new_calls_trans [OF c1 c2])
  have a1: "list_all (\<lambda>c. \<not> is_CM c) (new_calls s1 m1)"
    and a2: "list_all (\<lambda>c. \<not> is_CM c) (new_calls (setProperty_senderSource None m1) m)"
    using run_all [OF r1] run_all [OF r2] by (auto simp: list_all_iff dest: not_CM_weaken)
  have mid: "filter is_connect_or_disconnect (new_calls s1 m) = []" "filter is_clickConnect (new_calls s1 m) = []"
    unfolding split1
    by (simp_all add: filter_sub [OF filter_none [OF a1]] filter_sub [OF filter_none [OF a2]]
        is_connect_or_disconnect_def)
  have cm: "calls m = calls s1 @ new_calls s1 m"
    using c1 c2 split1 by simp
  \<comment> \<open>the re-invoked connect sequence\<close>
  have last: "filter is_connect_or_disconnect (new_calls m s2) = filter is_clickConnect (new_calls m s2)
      \<and> length (filter is_clickConnect (new_calls m s2)) \<le> 1
      \<and> (\<forall>ovpn creds bli cs' pm px b path.
            CM (CM_clickConnect ovpn creds bli cs' pm px b path) \<in> set (new_calls m s2) \<longrightarrow>
            (\<exists>tr. lm_getMutableLocationInfoById (env s) tr loc = Some bli)
            \<and> bli_isExistSelectedNode bli)
      \<and> (\<not> (isBlockConnect s \<and> \<not> isCustomConfigsLocation loc)
           \<and> (\<forall>tr. \<exists>bli. lm_getMutableLocationInfoById (env s) tr loc = Some bli
                  \<and> bli_isExistSelectedNode bli) \<longrightarrow>
         length (filter is_clickConnect (new_calls m s2)) = 1)
      \<and> (isBlockConnect s \<and> \<not> isCustomConfigsLocation loc \<longrightarrow>
           filter is_clickConnect (new_calls m s2) = [])
      \<and> CSC setDisconnectingState \<notin> set (new_calls m s2)
      \<and> calls s2 = calls m @ new_calls m s2"
  proof (cases "isBlockConnect s \<and> \<not> isCustomConfigsLocation loc")
    case True
    with disc fr have "s2 = m\<lparr>locationId := loc, connectionSettingsOverride := cs,
         calls := calls m @ [CSC (setDisconnectedState DISCONNECTED_WITH_ERROR CONNECTION_BLOCKED),
                             Misc (MyIp_getIP 1)]\<rparr>"
      unfolding s2_eq by (simp add: connectClickImpl_def Let_def do_call_def ask_def)
    then have "calls s2 = calls m @ [CSC (setDisconnectedState DISCONNECTED_WITH_ERROR CONNECTION_BLOCKED),
                             Misc (MyIp_getIP 1)]"
      by simp
    with True show ?thesis
      by (simp add: is_connect_or_disconnect_def new_calls_def)
  next
    case False
    define m0 where "m0 = m\<lparr>locationId := loc, connectionSettingsOverride := cs\<rparr>"
    define p where "p = connectClickImpl_prepare m0"
    have s2p: "s2 = doConnect True p"
      unfolding s2_eq p_def m0_def using disc False fr
      by (intro connectClickImpl_proceed) simp_all
    have rp: "run (\<lambda>c. \<not> is_CM c) m0 p"
      unfolding p_def by (rule connectClickImpl_prepare_run)
    have rp': "run (\<lambda>c. \<forall>x. c \<noteq> CSC x) m0 p"
      unfolding p_def by (rule connectClickImpl_prepare_no_csc)
    have cp: "calls p = calls m @ new_calls m0 p"
      using run_calls [OF rp] by (simp add: m0_def)
    have split2: "new_calls m s2 = new_calls m0 p @ new_calls p (doConnect True p)"
      unfolding s2p by (rule new_calls_trans [OF cp doConnect_extends])
    have pre: "filter is_connect_or_disconnect (new_calls m0 p) = []" "filter is_clickConnect (new_calls m0 p) = []"
      using filter_sub [OF filter_none [OF run_all [OF rp]]] by simp_all
    have pf: "locationId p = loc" "env p = env s"
      using run_frame(9,1) [OF rp] fr by (simp_all add: m0_def)
    have none_pre: "CM x \<notin> set (new_calls m0 p)" for x
      using run_all [OF rp] by (auto simp: list_all_iff)
    have where_from: "(\<exists>tr. lm_getMutableLocationInfoById (env s) tr loc = Some bli)
        \<and> bli_isExistSelectedNode bli"
      if "CM (CM_clickConnect ovpn creds bli cs' pm px b path) \<in> set (new_calls m s2)"
      for ovpn creds bli cs' pm px b path
    proof -
      from that none_pre have "CM (CM_clickConnect ovpn creds bli cs' pm px b path)
          \<in> set (new_calls p (doConnect True p))"
        unfolding split2 by auto
      from doConnect_cm_calls(3) [OF this] doConnect_selected [OF this] pf show ?thesis
        by (auto simp: ask_def)
    qed
    have quiet: "CSC setDisconnectingState \<notin> set (new_calls m s2)"
      unfolding split2 using run_all [OF rp'] doConnect_no_disconnecting [of p True]
      by (auto simp: list_all_iff)
    have one: "length (filter is_clickConnect (new_calls m s2)) = 1"
      if "\<forall>tr. \<exists>bli. lm_getMutableLocationInfoById (env s) tr loc = Some bli \<and> bli_isExistSelectedNode bli"
    proof -
      from that pf obtain bli where "ask lm_getMutableLocationInfoById p (locationId p) = Some bli"
        "bli_isExistSelectedNode bli"
        by (auto simp: ask_def)
      from doConnect_cm_calls(4) [OF this] show ?thesis
        unfolding split2 by (simp add: pre)
    qed
    have ext: "calls s2 = calls m @ new_calls m s2"
      unfolding split2 using cp doConnect_extends [of True p] by (simp add: s2p)
    have le: "length (filter is_clickConnect (new_calls m s2)) \<le> 1"
      unfolding split2 using doConnect_cm_calls(2) [of p True] by (simp add: pre)
    have eqf: "filter is_connect_or_disconnect (new_calls m s2) = filter is_clickConnect (new_calls m s2)"
      unfolding split2 by (simp add: pre doConnect_cm_calls(1))
    from eqf le where_from one ext quiet False show ?thesis
      by blast
  qed
  have first: "new_calls s s1 = [CM (CM_setProperty_senderSource (Some ''reconnect'')), CM CM_clickDisconnect]"
    by (simp add: c01 new_calls_def)
  have total: "new_calls s s2 = new_calls s s1 @ new_calls s1 m @ new_calls m s2"
  proof -
    have "calls s2 = calls s @ (new_calls s s1 @ new_calls s1 m @ new_calls m s2)"
      using last cm c01 first by simp
    then show ?thesis
      by (rule new_calls_append)
  qed
  have F1: "filter is_connect_or_disconnect (new_calls s s2) =
      CM CM_clickDisconnect # filter is_clickConnect (new_calls s s2)"
    unfolding total by (simp add: first mid last is_connect_or_disconnect_def)
  have F2: "filter is_clickConnect (new_calls s s2) = filter is_clickConnect (new_calls m s2)"
    unfolding total by (simp add: first mid)
  have F3: "set (filter is_clickConnect (new_calls m s2)) \<subseteq> set (new_calls m s2)"
    by auto
  have F4: "CSC setDisconnectingState \<notin> set (new_calls s s2)"
    unfolding total using last run_all [OF r1] run_all [OF r2]
    by (auto simp: first split1 list_all_iff)
  have F5: "filter is_clickConnect (new_calls m s2) = []"
    if none: "\<forall>tr bli. lm_getMutableLocationInfoById (env s) tr loc = Some bli \<longrightarrow>
                  \<not> bli_isExistSelectedNode bli"
  proof (rule ccontr)
    assume "filter is_clickConnect (new_calls m s2) \<noteq> []"
    then obtain c where c: "c \<in> set (new_calls m s2)" "is_clickConnect c"
      by (auto simp: filter_empty_conv)
    from c(2) obtain ovpn creds bli cs' pm px b path
      where "c = CM (CM_clickConnect ovpn creds bli cs' pm px b path)"
      by (auto elim: is_clickConnect.elims)
    with c(1) last have "(\<exists>tr. lm_getMutableLocationInfoById (env s) tr loc = Some bli)
        \<and> bli_isExistSelectedNode bli"
      by blast
    with none show False
      by blast
  qed
  from F1 F2 F3 F4 F5 last
  show "let s2 = onConnectionManagerDisconnected reason (connectClickImpl loc cs s);
           rest = filter is_clickConnect (new_calls s s2)
       in filter is_connect_or_disconnect (new_calls s s2) = CM CM_clickDisconnect # rest
          \<and> length rest \<le> 1
          \<and> (\<forall>ovpn creds bli cs' pm px b path.
                CM (CM_clickConnect ovpn creds bli cs' pm px b path) \<in> set rest \<longrightarrow>
                (\<exists>tr. lm_getMutableLocationInfoById (env s) tr loc = Some bli)
                \<and> bli_isExistSelectedNode bli)
          \<and> (\<not> (isBlockConnect s \<and> \<not> isCustomConfigsLocation loc)
               \<and> (\<forall>tr. \<exists>bli. lm_getMutableLocationInfoById (env s) tr loc = Some bli
                      \<and> bli_isExistSelectedNode bli) \<longrightarrow>
             length rest = 1)
          \<and> (isBlockConnect s \<and> \<not> isCustomConfigsLocation loc \<longrightarrow> rest = [])
          \<and> ((\<forall>tr bli. lm_getMutableLocationInfoById (env s) tr loc = Some bli \<longrightarrow>
                  \<not> bli_isExistSelectedNode bli) \<longrightarrow> rest = [])
          \<and> CSC setDisconnectingState \<notin> set (new_calls s s2)"
    unfolding Let_def s2_def [symmetric] s1_def [symmetric] by (simp only: F2) blast
qed




lemma engine0_reconnect_calls:
  "\<not> ask cm_isDisconnected engine0_connected"
  "ask cm_isDisconnected (snd (onConnectionManagerDisconnected_restore
     (connectClickImpl toronto noOverride engine0_connected)))"
  "new_calls engine0_connected (onConnectionManagerDisconnected DISCONNECTED_BY_USER
     (connectClickImpl toronto noOverride engine0_connected)) =
     [CM (CM_setProperty_senderSource (Some ''reconnect'')),
      CM CM_clickDisconnect,
      CM (CM_setProperty_senderSource None),
      Misc VpnShare_onDisconnectedFromVPNEvent,
      Misc (HttpNetworkManager_setProxySettings (Some ([], [], []))),
      Misc DnsServersConfiguration_setDisconnectedState,
      FW (FW_setInterfaceToSkip_posix []),
      ARM ARM_disconnect_serverCredentialsFetched,
      FW (FW_firewallOn [] [] False False),
      Emit (firewallStateChanged True),
      Misc Logger_startConnectionMode,
      CM (CM_setLastKnownGoodProtocol WIREGUARD),
      CM (CM_clickConnect ''client'' [''user'', ''secret'']
        \<lparr>bli_locationId = toronto, bli_name = ''Toronto'', bli_isExistSelectedNode = True\<rparr>
        automaticSettings [443] \<lparr>curlAddress = [], proxyUsername = [], proxyPassword = []\<rparr> True [])]"
  unfolding onConnectionManagerDisconnected_def onConnectionManagerDisconnected_restore_def
    connectClickImpl_def connectClickImpl_firewall_def doConnect_def setProperty_senderSource_def
    addCustomRemoteIpToFirewallIfNeed_def stopFetchingServerCredentials_def
    doDisconnectRestoreStuff_def setConnectingIp_def setDNSServers_def case_prod_unfold
    engine0_connected_def
  by (simp_all add: eval_simps toronto_def noOverride_def
      cong: let_weak_cong platform.case_cong_weak option.case_cong_weak)

lemma engine0_blocked_calls:
  "\<not> ask cm_isDisconnected engine0_blocked"
  "ask cm_isDisconnected (snd (onConnectionManagerDisconnected_restore
     (connectClickImpl toronto noOverride engine0_blocked)))"
  "new_calls engine0_blocked (onConnectionManagerDisconnected DISCONNECTED_BY_USER
     (connectClickImpl toronto noOverride engine0_blocked)) =
     [CM (CM_setProperty_senderSource (Some ''reconnect'')),
      CM CM_clickDisconnect,
      CM (CM_setProperty_senderSource None),
      Misc VpnShare_onDisconnectedFromVPNEvent,
      Misc (HttpNetworkManager_setProxySettings (Some ([], [], []))),
      Misc DnsServersConfiguration_setDisconnectedState,
      FW (FW_setInterfaceToSkip_posix []),
      CSC (setDisconnectedState DISCONNECTED_WITH_ERROR CONNECTION_BLOCKED),
      Misc (MyIp_getIP 1)]"
  "new_calls engine0_blocked (onConnectionManagerDisconnected DISCONNECTED_BY_USER
     (connectClickImpl toronto noOverride (connectClick toronto noOverride engine0_blocked))) =
     [CSC (setConnectingState toronto),
      Queued (Invoke_connectClickImpl toronto noOverride),
      CM (CM_setProperty_senderSource (Some ''reconnect'')),
      CM CM_clickDisconnect,
      CM (CM_setProperty_senderSource None),
      Misc VpnShare_onDisconnectedFromVPNEvent,
      Misc (HttpNetworkManager_setProxySettings (Some ([], [], []))),
      Misc DnsServersConfiguration_setDisconnectedState,
      FW (FW_setInterfaceToSkip_posix []),
      CSC (setDisconnectedState DISCONNECTED_WITH_ERROR CONNECTION_BLOCKED),
      Misc (MyIp_getIP 1)]"
  unfolding onConnectionManagerDisconnected_def onConnectionManagerDisconnected_restore_def
    connectClick_def connectClickImpl_def connectClickImpl_firewall_def doConnect_def setProperty_senderSource_def
    addCustomRemoteIpToFirewallIfNeed_def stopFetchingServerCredentials_def
    doDisconnectRestoreStuff_def setConnectingIp_def setDNSServers_def case_prod_unfold
    engine0_blocked_def engine0_connected_def
  by (simp_all add: eval_simps toronto_def noOverride_def
      cong: let_weak_cong platform.case_cong_weak option.case_cong_weak)

lemma engine0_connected_click_calls:
  "new_calls engine0_connected (onConnectionManagerDisconnected DISCONNECTED_BY_USER
     (connectClickImpl toronto noOverride (connectClick toronto noOverride engine0_connected))) =
     [CSC (setConnectingState toronto),
      Queued (Invoke_connectClickImpl toronto noOverride),
      CM (CM_setProperty_senderSource (Some ''reconnect'')),
      CM CM_clickDisconnect,
      CM (CM_setProperty_senderSource None),
      Misc VpnShare_onDisconnectedFromVPNEvent,
      Misc (HttpNetworkManager_setProxySettings (Some ([], [], []))),
      Misc DnsServersConfiguration_setDisconnectedState,
      FW (FW_setInterfaceToSkip_posix []),
      ARM ARM_disconnect_serverCredentialsFetched,
      FW (FW_firewallOn [] [] False False),
      Emit (firewallStateChanged True),
      Misc Logger_startConnectionMode,
      CM (CM_setLastKnownGoodProtocol WIREGUARD),
      CM (CM_clickConnect ''client'' [''user'', ''secret'']
        \<lparr>bli_locationId = toronto, bli_name = ''Toronto'', bli_isExistSelectedNode = True\<rparr>
        automaticSettings [443] \<lparr>curlAddress = [], proxyUsername = [], proxyPassword = []\<rparr> True [])]"
  unfolding onConnectionManagerDisconnected_def onConnectionManagerDisconnected_restore_def
    connectClick_def connectClickImpl_def connectClickImpl_firewall_def doConnect_def setProperty_senderSource_def
    addCustomRemoteIpToFirewallIfNeed_def stopFetchingServerCredentials_def
    doDisconnectRestoreStuff_def setConnectingIp_def setDNSServers_def case_prod_unfold
    engine0_connected_def
  by (simp_all add: eval_simps toronto_def noOverride_def
      cong: let_weak_cong platform.case_cong_weak option.case_cong_weak)

text \<open>C1 as an unconditional statement fails. With the block-connect flag set, a
  connect command for Toronto issued while connected to Paris leads to the one
  clickDisconnect and to no clickConnect: the re-invoked sequence ends in
  CONNECTION_BLOCKED. And without the flag, the only connect-state call from the command
  to the end of the completion handler is setConnectingState(Toronto): the connect state
  is not set to Disconnecting between the two locations.\<close>

theorem C1_reconnect_counterexample:
  "bInitialized engine0_blocked
   \<and> ask csc_currentState engine0_blocked = CONNECT_STATE_CONNECTED
   \<and> \<not> ask cm_isDisconnected engine0_blocked
   \<and> new_calls engine0_blocked (onConnectionManagerDisconnected DISCONNECTED_BY_USER
       (connectClickImpl toronto noOverride (connectClick toronto noOverride engine0_blocked))) =
     [CSC (setConnectingState toronto),
      Queued (Invoke_connectClickImpl toronto noOverride),
      CM (CM_setProperty_senderSource (Some ''reconnect'')),
      CM CM_clickDisconnect,
      CM (CM_setProperty_senderSource None),
      Misc VpnShare_onDisconnectedFromVPNEvent,
      Misc (HttpNetworkManager_setProxySettings (Some ([], [], []))),
      Misc DnsServersConfiguration_setDisconnectedState,
      FW (FW_setInterfaceToSkip_posix []),
      CSC (setDisconnectedState DISCONNECTED_WITH_ERROR CONNECTION_BLOCKED),
      Misc (MyIp_getIP 1)]
   \<and> filter is_connect_or_disconnect
       (new_calls engine0_blocked (onConnectionManagerDisconnected DISCONNECTED_BY_USER
         (connectClickImpl toronto noOverride (connectClick toronto noOverride engine0_blocked)))) =
     [CM CM_clickDisconnect]
   \<and> filter is_CSC
       (new_calls engine0_connected (onConnectionManagerDisconnected DISCONNECTED_BY_USER
         (connectClickImpl toronto noOverride (connectClick toronto noOverride engine0_connected)))) =
     [CSC (setConnectingState toronto)]"
proof -
  have "bInitialized engine0_blocked"
    and "ask csc_currentState engine0_blocked = CONNECT_STATE_CONNECTED"
    by (simp_all add: engine0_blocked_def engine0_connected_def engine0_fields ask_def)
  then show ?thesis
    using engine0_blocked_calls(1)
    by (simp add: engine0_blocked_calls(4) engine0_connected_click_calls is_connect_or_disconnect_def)
qed

theorem C1_reconnect_witness:
  "bInitialized engine0_connected
   \<and> calls (connectClick toronto noOverride engine0_connected) =
       [CSC (setConnectingState toronto), Queued (Invoke_connectClickImpl toronto noOverride)]
   \<and> \<not> ask cm_isDisconnected engine0_connected
   \<and> ask cm_isDisconnected (snd (onConnectionManagerDisconnected_restore
        (connectClickImpl toronto noOverride engine0_connected)))
   \<and> senderSource (connectClickImpl toronto noOverride engine0_connected) = Some ''reconnect''
   \<and> senderSource (snd (onConnectionManagerDisconnected_restore
        (connectClickImpl toronto noOverride engine0_connected))) = None
   \<and> filter is_connect_or_disconnect
        (new_calls engine0_connected (onConnectionManagerDisconnected DISCONNECTED_BY_USER
          (connectClickImpl toronto noOverride engine0_connected))) =
      [CM CM_clickDisconnect,
       CM (CM_clickConnect ''client'' [''user'', ''secret'']
        \<lparr>bli_locationId = toronto, bli_name = ''Toronto'', bli_isExistSelectedNode = True\<rparr>
        automaticSettings [443] \<lparr>curlAddress = [], proxyUsername = [], proxyPassword = []\<rparr> True [])]
   \<and> CSC setDisconnectingState \<notin> set
        (new_calls engine0_connected (onConnectionManagerDisconnected DISCONNECTED_BY_USER
          (connectClickImpl toronto noOverride engine0_connected)))
   \<and> isBlockConnect engine0_blocked \<and> \<not> isCustomConfigsLocation toronto
   \<and> \<not> ask cm_isDisconnected engine0_blocked
   \<and> ask cm_isDisconnected (snd (onConnectionManagerDisconnected_restore
        (connectClickImpl toronto noOverride engine0_blocked)))
   \<and> filter is_connect_or_disconnect
        (new_calls engine0_blocked (onConnectionManagerDisconnected DISCONNECTED_BY_USER
          (connectClickImpl toronto noOverride engine0_blocked))) = [CM CM_clickDisconnect]"
proof -
  note h = engine0_reconnect_calls(1,2)
  have i: "bInitialized engine0_connected"
    by (simp add: engine0_connected_def engine0_fields)
  from i C1_reconnect [of engine0_connected toronto noOverride]
  have z: "calls (connectClick toronto noOverride engine0_connected) =
       [CSC (setConnectingState toronto), Queued (Invoke_connectClickImpl toronto noOverride)]"
    by (simp add: engine0_connected_def engine0_fields)
  from h C1_reconnect [of engine0_connected toronto noOverride]
  have a: "senderSource (connectClickImpl toronto noOverride engine0_connected) = Some ''reconnect''"
    by simp
  from h C1_reconnect [of engine0_connected toronto noOverride DISCONNECTED_BY_USER]
  have bb: "filter is_connect_or_disconnect
        (new_calls engine0_connected (onConnectionManagerDisconnected DISCONNECTED_BY_USER
          (connectClickImpl toronto noOverride engine0_connected))) =
      CM CM_clickDisconnect # filter is_clickConnect
        (new_calls engine0_connected (onConnectionManagerDisconnected DISCONNECTED_BY_USER
          (connectClickImpl toronto noOverride engine0_connected)))
     \<and> CSC setDisconnectingState \<notin> set
        (new_calls engine0_connected (onConnectionManagerDisconnected DISCONNECTED_BY_USER
          (connectClickImpl toronto noOverride engine0_connected)))"
    unfolding Let_def by blast
  then have b: "filter is_connect_or_disconnect
        (new_calls engine0_connected (onConnectionManagerDisconnected DISCONNECTED_BY_USER
          (connectClickImpl toronto noOverride engine0_connected))) =
      [CM CM_clickDisconnect,
       CM (CM_clickConnect ''client'' [''user'', ''secret'']
        \<lparr>bli_locationId = toronto, bli_name = ''Toronto'', bli_isExistSelectedNode = True\<rparr>
        automaticSettings [443] \<lparr>curlAddress = [], proxyUsername = [], proxyPassword = []\<rparr> True [])]"
    by (simp add: engine0_reconnect_calls(3))
  from a C1_reconnect [of "connectClickImpl toronto noOverride engine0_connected"]
  have c: "senderSource (snd (onConnectionManagerDisconnected_restore
        (connectClickImpl toronto noOverride engine0_connected))) = None"
    by blast
  note k = engine0_blocked_calls(1,2)
  have blk: "isBlockConnect engine0_blocked \<and> \<not> isCustomConfigsLocation toronto"
    by (simp add: engine0_blocked_def isCustomConfigsLocation_def toronto_def)
  from k blk C1_reconnect [of engine0_blocked toronto noOverride DISCONNECTED_BY_USER]
  have "filter is_connect_or_disconnect
        (new_calls engine0_blocked (onConnectionManagerDisconnected DISCONNECTED_BY_USER
          (connectClickImpl toronto noOverride engine0_blocked))) =
      CM CM_clickDisconnect # filter is_clickConnect
        (new_calls engine0_blocked (onConnectionManagerDisconnected DISCONNECTED_BY_USER
          (connectClickImpl toronto noOverride engine0_blocked)))
     \<and> filter is_clickConnect
        (new_calls engine0_blocked (onConnectionManagerDisconnected DISCONNECTED_BY_USER
          (connectClickImpl toronto noOverride engine0_blocked))) = []"
    unfolding Let_def by blast
  then have d: "filter is_connect_or_disconnect
        (new_calls engine0_blocked (onConnectionManagerDisconnected DISCONNECTED_BY_USER
          (connectClickImpl toronto noOverride engine0_blocked))) = [CM CM_clickDisconnect]"
    by simp
  from i z h a b bb c blk k d show ?thesis
    by blast
qed

end
